theory Spec2Isabelle
  imports Complex_Main "HOL-Library.Word" "HOL-Library.AList"
begin

section \<open>JavaScript values\<close>

text \<open>
  A JavaScript string is a sequence of 16-bit code units, and \<open>length\<close> counts them.
  \<open>js\<close> embeds an ASCII literal of the source.
\<close>

type_synonym jsstring = "16 word list"

type_synonym byte = "8 word"

definition js :: "string \<Rightarrow> jsstring" where
  "js s = map of_char s"

text \<open>
  A JavaScript number, as far as the tracker looks at it: \<open>NaN\<close>, the two infinities or
  a finite value. The swarm counters only ever take integer steps from 0 and are kept as
  \<open>int\<close>.
\<close>

datatype jsnum = NaN | NegInf | Fin real | PosInf

text \<open>
  What \<open>JSON.parse\<close> returns. An object is the list of its members in the order of the
  text; when a name is repeated the last member wins, as in \<open>JSON.parse\<close>.
\<close>

datatype json =
    JNull
  | JBool bool
  | JNum jsnum
  | JStr jsstring
  | JArr "json list"
  | JObj "(jsstring \<times> json) list"

text \<open>
  \<open>data.name\<close> for a value \<open>data\<close> that is not \<open>null\<close>, for the names the tracker reads
  (\<open>info_hash\<close>, \<open>peer_id\<close>, \<open>event\<close>, \<open>left\<close>, \<open>offers\<close>, \<open>to_peer_id\<close>, \<open>answer\<close>): an
  object yields its own member, every other value yields \<open>undefined\<close> (\<open>None\<close>), since no
  prototype defines one of these names. On \<open>null\<close> the access throws; the handler models
  that case itself.
\<close>

fun fld :: "json \<Rightarrow> string \<Rightarrow> json option" where
  "fld (JObj kvs) name = map_of (rev kvs) (js name)"
| "fld _ name = None"

text \<open>\<open>typeof v === 'string' && v\<close>: the string, or \<open>false\<close> (\<open>None\<close>).\<close>

fun string_or_false :: "json option \<Rightarrow> jsstring option" where
  "string_or_false (Some (JStr s)) = Some s"
| "string_or_false _ = None"

text \<open>Truthiness of a value read from the parsed message (\<open>None\<close> is \<open>undefined\<close>).\<close>

fun falsy :: "json option \<Rightarrow> bool" where
  "falsy None = True"
| "falsy (Some JNull) = True"
| "falsy (Some (JBool b)) = (\<not> b)"
| "falsy (Some (JNum n)) = (n = NaN \<or> n = Fin 0)"
| "falsy (Some (JStr s)) = (s = [])"
| "falsy (Some _) = False"

text \<open>
  The \<open>length\<close> property: arrays and strings have one, an object has it when it has a
  member of that name, numbers and booleans do not.
\<close>

fun js_length :: "json \<Rightarrow> json option" where
  "js_length (JArr xs) = Some (JNum (Fin (real (length xs))))"
| "js_length (JStr s) = Some (JNum (Fin (real (length s))))"
| "js_length (JObj kvs) = map_of (rev kvs) (js ''length'')"
| "js_length _ = None"

text \<open>
  The parts of the JavaScript runtime that the tracker calls and that are not code of the
  repository are parameters of the model:
  \<^item> \<open>utf8_decode\<close> is \<open>Buffer.prototype.toString('utf8')\<close>, whose treatment of malformed
    input differs between Node versions;
  \<^item> \<open>to_number\<close> is \<open>Number(v)\<close> for a string, an array or an object \<open>v\<close> (the conversion
    through \<open>ToPrimitive\<close>); \<open>None\<close> stands for the \<open>TypeError\<close> it throws when an object has
    a member \<open>toString\<close>, which \<open>JSON.parse\<close> never makes callable.
\<close>

record runtime =
  utf8_decode :: "byte list \<Rightarrow> jsstring"
  to_number :: "json \<Rightarrow> jsnum option"

text \<open>\<open>Number(v)\<close>; on \<open>undefined\<close>, \<open>null\<close>, booleans and numbers it is fixed by the language.\<close>

fun Number :: "runtime \<Rightarrow> json option \<Rightarrow> jsnum option" where
  "Number rt None = Some NaN"
| "Number rt (Some JNull) = Some (Fin 0)"
| "Number rt (Some (JBool b)) = Some (Fin (if b then 1 else 0))"
| "Number rt (Some (JNum n)) = Some n"
| "Number rt (Some v) = to_number rt v"

text \<open>\<open>n || 0\<close> on a number: \<open>NaN\<close> and zero are falsy.\<close>

definition or_zero :: "jsnum \<Rightarrow> jsnum" where
  "or_zero n = (if n = NaN \<or> n = Fin 0 then Fin 0 else n)"

text \<open>\<open>Math.min(n, m)\<close> for a finite \<open>m\<close>.\<close>

fun Math_min :: "jsnum \<Rightarrow> real \<Rightarrow> jsnum" where
  "Math_min NaN m = NaN"
| "Math_min NegInf m = NegInf"
| "Math_min (Fin r) m = Fin (min r m)"
| "Math_min PosInf m = Fin m"

text \<open>\<open>k >= n\<close> for an array length \<open>k\<close>; every comparison with \<open>NaN\<close> is false.\<close>

fun length_ge :: "nat \<Rightarrow> jsnum \<Rightarrow> bool" where
  "length_ge k NaN = False"
| "length_ge k NegInf = True"
| "length_ge k (Fin r) = (r \<le> real k)"
| "length_ge k PosInf = False"

text \<open>The decimal form of an array index, the property name that \<open>v[i]\<close> looks up.\<close>

fun decimal :: "nat \<Rightarrow> jsstring" where
  "decimal n =
     (if n < 10 then [of_nat (48 + n)]
      else decimal (n div 10) @ [of_nat (48 + n mod 10)])"

text \<open>
  \<open>v[i]\<close> for a value that is not \<open>null\<close> or \<open>undefined\<close>: an element of an array, a
  one-character string of a string, the member named by the index of an object.
\<close>

fun index_get :: "json option \<Rightarrow> nat \<Rightarrow> json option" where
  "index_get (Some (JArr xs)) i = (if i < length xs then Some (xs ! i) else None)"
| "index_get (Some (JStr s)) i = (if i < length s then Some (JStr [s ! i]) else None)"
| "index_get (Some (JObj kvs)) i = map_of (rev kvs) (decimal i)"
| "index_get _ i = None"

subsection \<open>Plain objects used as dictionaries\<close>

text \<open>
  \<open>self.torrents\<close> and \<open>swarm.peers\<close> are object literals \<open>{}\<close>. Reading \<open>obj[key]\<close> finds
  an own property first and then the properties every object inherits from
  \<open>Object.prototype\<close>; these are functions (for \<open>__proto__\<close> the prototype itself), truthy
  values that are neither a swarm nor a peer.
\<close>

definition object_prototype_names :: "jsstring list" where
  "object_prototype_names = map js
     [''constructor'', ''toString'', ''toLocaleString'', ''valueOf'', ''hasOwnProperty'',
      ''isPrototypeOf'', ''propertyIsEnumerable'', ''__defineGetter__'', ''__defineSetter__'',
      ''__lookupGetter__'', ''__lookupSetter__'', ''__proto__'']"

datatype 'a slot = Undefined | Null | Own 'a | Inherited jsstring

fun truthy :: "'a slot \<Rightarrow> bool" where
  "truthy (Own x) = True"
| "truthy (Inherited k) = True"
| "truthy _ = False"

section \<open>The tracker's state\<close>

text \<open>
  A peer object \<open>{socket, peerId}\<close> (the fields \<open>peer_socket\<close> and \<open>peer_peerId\<close>).
  \<open>peer_complete\<close> is its property \<open>complete\<close>, absent (falsy) until the \<open>completed\<close>
  branch sets it to \<open>true\<close>. A socket is an opaque handle.
\<close>

record peer =
  peer_socket :: nat
  peer_peerId :: jsstring
  peer_complete :: bool

text \<open>
  \<open>swarm.peers\<close>: the own properties in the order of their creation, which is the order
  \<open>for (peerId in swarm.peers)\<close> enumerates them in (a 20-character name is never an array
  index). \<open>None\<close> is the value \<open>null\<close> left by \<open>stopped\<close>. Assignment is \<open>AList.update\<close>:
  in place for a name that exists, at the end for a new one.
\<close>

type_synonym peer_table = "(jsstring \<times> peer option) list"

record swarm =
  complete :: int
  incomplete :: int
  peers :: peer_table

definition peers_get :: "peer_table \<Rightarrow> jsstring \<Rightarrow> peer slot" where
  "peers_get ps k =
     (case map_of ps k of
        Some (Some p) \<Rightarrow> Own p
      | Some None \<Rightarrow> Null
      | None \<Rightarrow> if k \<in> set object_prototype_names then Inherited k else Undefined)"

text \<open>
  The server: \<open>_intervalMs\<close>, \<open>torrents\<close>, and the one piece of state outside the server that
  the handler can write: the property \<open>complete\<close> it may set on an inherited function when
  that is what \<open>swarm.peers[peerId]\<close> returned (\<open>marked_complete\<close> holds the names of the
  functions so marked).
\<close>

record server =
  intervalMs :: real
  torrents :: "jsstring \<rightharpoonup> swarm"
  marked_complete :: "jsstring set"

text \<open>The constructor: \<open>opts.interval ? opts.interval / 1000 : 10 * 60\<close>, no torrents.\<close>

definition Server :: "real option \<Rightarrow> server" where
  "Server interval =
     \<lparr>intervalMs = (case interval of None \<Rightarrow> 600 | Some i \<Rightarrow> if i = 0 then 600 else i / 1000),
      torrents = Map.empty,
      marked_complete = {}\<rparr>"

definition new_swarm :: swarm where
  "new_swarm = \<lparr>complete = 0, incomplete = 0, peers = []\<rparr>"

text \<open>
  \<open>Server.prototype._getSwarm\<close>: the value found under the key when it is truthy, a new
  swarm stored under the key otherwise.
\<close>

definition internal_getSwarm :: "server \<Rightarrow> jsstring \<Rightarrow> swarm slot \<times> server" where
  "internal_getSwarm self binaryInfoHash =
     (case torrents self binaryInfoHash of
        Some swarm \<Rightarrow> (Own swarm, self)
      | None \<Rightarrow>
          if binaryInfoHash \<in> set object_prototype_names then (Inherited binaryInfoHash, self)
          else (Own new_swarm,
                self\<lparr>torrents := (torrents self)(binaryInfoHash \<mapsto> new_swarm)\<rparr>))"

section \<open>What a handler does to the outside\<close>

text \<open>
  The objects handed to \<open>send\<close>, before \<open>JSON.stringify\<close>: the error response, the
  response \<open>{complete, incomplete, interval, 'warning message'}\<close>, the introduction
  \<open>{offer, from_peer_id}\<close> and the relayed answer, which is the value of
  \<open>typeof data.answer === 'string' && data.answer\<close>: a string or \<open>false\<close>.
\<close>

datatype payload =
    FailureReason string
  | Response int int real "string option"
  | Introduction "json option" jsstring
  | Raw json

text \<open>\<open>socket.send\<close> on a connection, and \<open>self.emit\<close> of an event or of a warning.\<close>

datatype effect =
    Send nat payload
  | Emit string
  | EmitWarning string

text \<open>
  A handler returns after its effects (\<open>Done\<close>), or throws a \<open>TypeError\<close> (\<open>Threw\<close>); every
  throw of \<open>_onSocketMessage\<close> comes before its first \<open>send\<close> or \<open>emit\<close>, so \<open>Threw\<close> only
  carries the state reached.
\<close>

datatype outcome = Threw server | Done server "effect list"

text \<open>The inner function \<open>error\<close>: the error response to the sender, then the warning.\<close>

definition error :: "nat \<Rightarrow> string \<Rightarrow> effect list" where
  "error socket message = [Send socket (FailureReason message), EmitWarning message]"

text \<open>\<open>binaryToUtf8\<close>: \<open>new Buffer(str, 'binary')\<close> keeps the low byte of every code unit.\<close>

definition binaryToUtf8 :: "runtime \<Rightarrow> jsstring \<Rightarrow> jsstring" where
  "binaryToUtf8 rt str = utf8_decode rt (map ucast str)"

definition MAX_ANNOUNCE_PEERS :: real where
  "MAX_ANNOUNCE_PEERS = 20"

text \<open>
  \<open>Math.min(Number(data.offers && data.offers.length) || 0, MAX_ANNOUNCE_PEERS)\<close>;
  \<open>None\<close> when \<open>Number\<close> throws.
\<close>

definition numWant_of :: "runtime \<Rightarrow> json \<Rightarrow> jsnum option" where
  "numWant_of rt data =
     (let offers = fld data ''offers'' in
      map_option (\<lambda>n. Math_min (or_zero n) MAX_ANNOUNCE_PEERS)
        (Number rt (case offers of
                      None \<Rightarrow> None
                    | Some v \<Rightarrow> if falsy offers then offers else js_length v)))"

text \<open>
  \<open>Server.prototype._getPeers\<close>: the loop over the own properties of \<open>swarm.peers\<close>, with
  the array \<open>peers\<close> of the source as \<open>result\<close>.
\<close>

fun getPeers_loop :: "peer_table \<Rightarrow> jsnum \<Rightarrow> peer list \<Rightarrow> peer list" where
  "getPeers_loop [] numWant result = result"
| "getPeers_loop ((peerId, peer) # rest) numWant result =
     (if length_ge (length result) numWant then result
      else case peer of
             None \<Rightarrow> getPeers_loop rest numWant result
           | Some p \<Rightarrow> getPeers_loop rest numWant (result @ [p]))"

definition internal_getPeers :: "swarm \<Rightarrow> jsnum \<Rightarrow> peer list" where
  "internal_getPeers swarm numWant = getPeers_loop (peers swarm) numWant []"

text \<open>
  \<open>peers.forEach\<close>: the peer at position \<open>i\<close> is sent \<open>{offer: data.offers[i],
  from_peer_id: peerId}\<close> on its own socket. (When \<open>data.offers\<close> is \<open>null\<close> or absent
  \<open>numWant\<close> is 0 and there is no peer to send to, so \<open>data.offers[i]\<close> is not evaluated.)
\<close>

definition introductions :: "peer list \<Rightarrow> json option \<Rightarrow> jsstring \<Rightarrow> effect list" where
  "introductions ps offers from_peer_id =
     map (\<lambda>(i, p). Send (peer_socket p) (Introduction (index_get offers i) from_peer_id))
       (enumerate 0 ps)"

text \<open>\<open>peer.complete\<close> for a truthy \<open>peer\<close>: a peer's own flag, or the mark on a function.\<close>

fun is_complete :: "server \<Rightarrow> peer slot \<Rightarrow> bool" where
  "is_complete self (Own p) = peer_complete p"
| "is_complete self (Inherited k) = (k \<in> marked_complete self)"
| "is_complete self _ = False"

text \<open>
  The \<open>switch (data.event)\<close>. A branch that ends in \<open>break\<close> hands on the swarm as it has
  changed it, the marked functions, the events it emitted and its warning; a branch that
  ends in \<open>return\<close> gives the handler's outcome.
\<close>

datatype switch_result =
    Break swarm "jsstring set" "effect list" "string option"
  | Return outcome

definition switch_event ::
  "runtime \<Rightarrow> server \<Rightarrow> nat \<Rightarrow> json \<Rightarrow> jsstring \<Rightarrow> swarm \<Rightarrow> peer slot \<Rightarrow> switch_result"
where
  "switch_event rt self socket data peerId swarm peer =
     (let event = fld data ''event''; marks = marked_complete self in
      if event = Some (JStr (js ''started'')) then
        (if truthy peer then
           Break swarm marks []
             (Some ''unexpected `started` event from peer that is already in swarm'')
         else
           (case Number rt (fld data ''left'') of
              None \<Rightarrow> Return (Threw self)
            | Some left \<Rightarrow>
                Break
                  ((if left = Fin 0 then swarm\<lparr>complete := complete swarm + 1\<rparr>
                    else swarm\<lparr>incomplete := incomplete swarm + 1\<rparr>)
                   \<lparr>peers := AList.update peerId
                       (Some \<lparr>peer_socket = socket, peer_peerId = peerId, peer_complete = False\<rparr>)
                       (peers swarm)\<rparr>)
                  marks [Emit ''start''] None))
      else if event = Some (JStr (js ''stopped'')) then
        (if \<not> truthy peer then
           Break swarm marks []
             (Some ''unexpected `stopped` event from peer that is not in swarm'')
         else
           Break
             ((if is_complete self peer then swarm\<lparr>complete := complete swarm - 1\<rparr>
               else swarm\<lparr>incomplete := incomplete swarm - 1\<rparr>)
              \<lparr>peers := AList.update peerId None (peers swarm)\<rparr>)
             marks [Emit ''stop''] None)
      else if event = Some (JStr (js ''completed'')) then
        (if \<not> truthy peer then
           Break swarm marks []
             (Some ''unexpected `completed` event from peer that is not in swarm'')
         else if is_complete self peer then
           Break swarm marks []
             (Some ''unexpected `completed` event from peer that is already marked as completed'')
         else
           Break
             (swarm\<lparr>complete := complete swarm + 1, incomplete := incomplete swarm - 1,
                peers := (case peer of
                            Own p \<Rightarrow> AList.update peerId (Some (p\<lparr>peer_complete := True\<rparr>))
                                       (peers swarm)
                          | _ \<Rightarrow> peers swarm)\<rparr>)
             (case peer of Inherited k \<Rightarrow> insert k marks | _ \<Rightarrow> marks)
             [Emit ''complete''] None)
      else if event = Some (JStr []) \<or> event = None then
        (if \<not> truthy peer then
           Break swarm marks []
             (Some ''unexpected `update` event from peer that is not in swarm'')
         else Break swarm marks [Emit ''update''] None)
      else if event = Some (JStr (js ''answered'')) then
        (if \<not> truthy peer then
           Break swarm marks []
             (Some ''unexpected `answered` event from peer that is not in swarm'')
         else
           (case string_or_false (fld data ''to_peer_id'') of
              None \<Rightarrow> Return (Done self (error socket ''invalid `to_peer_id`''))
            | Some toPeerId \<Rightarrow>
                if toPeerId = [] then Return (Done self (error socket ''invalid `to_peer_id`''))
                else
                  (case peers_get (peers swarm) toPeerId of
                     Own toPeer \<Rightarrow>
                       Return (Done self
                         [Send (peer_socket toPeer)
                            (Raw (case string_or_false (fld data ''answer'') of
                                    Some answer \<Rightarrow> JStr answer
                                  | None \<Rightarrow> JBool False)),
                          Emit ''answer''])
                   | Inherited k \<Rightarrow> Return (Threw self)
                   | _ \<Rightarrow> Return (Done self [EmitWarning ''no peer with that `to_peer_id`'']))))
      else Return (Done self (error socket ''invalid event'')))"

text \<open>
  Lines 113 to 222 of \<open>_onSocketMessage\<close>, for a message whose ids passed the checks: the
  swarm, the peer, \<open>numWant\<close>, the switch, then the response to the sender and the
  introductions. \<open>swarm.peers[peerId]\<close> throws when \<open>_getSwarm\<close> returned an inherited
  function, which has no \<open>peers\<close>.
\<close>

definition announce ::
  "runtime \<Rightarrow> server \<Rightarrow> nat \<Rightarrow> json \<Rightarrow> jsstring \<Rightarrow> jsstring \<Rightarrow> outcome"
where
  "announce rt self socket data infoHash peerId =
     (case internal_getSwarm self infoHash of
        (Own swarm, self1) \<Rightarrow>
          (case numWant_of rt data of
             None \<Rightarrow> Threw self1
           | Some numWant \<Rightarrow>
               (case switch_event rt self1 socket data peerId swarm
                       (peers_get (peers swarm) peerId) of
                  Return out \<Rightarrow> out
                | Break swarm' marks emitted warning \<Rightarrow>
                    Done
                      (self1\<lparr>torrents := (torrents self1)(infoHash \<mapsto> swarm'),
                         marked_complete := marks\<rparr>)
                      (emitted
                       @ [Send socket
                            (Response (complete swarm') (incomplete swarm') (intervalMs self1)
                               warning)]
                       @ introductions (internal_getPeers swarm' numWant)
                           (fld data ''offers'') peerId)))
      | (_, self1) \<Rightarrow> Threw self1)"

text \<open>
  \<open>Server.prototype._onSocketMessage\<close>. The message is given as the result of
  \<open>JSON.parse\<close>: \<open>None\<close> when it throws. \<open>data.info_hash\<close> throws when \<open>data\<close> is \<open>null\<close>.
\<close>

definition onSocketMessage :: "runtime \<Rightarrow> server \<Rightarrow> nat \<Rightarrow> json option \<Rightarrow> outcome" where
  "onSocketMessage rt self socket parsed =
     (case parsed of
        None \<Rightarrow> Done self (error socket ''invalid socket message'')
      | Some data \<Rightarrow>
          if data = JNull then Threw self
          else
            (let infoHash = string_or_false (fld data ''info_hash'');
                 peerId = map_option (binaryToUtf8 rt) (string_or_false (fld data ''peer_id''))
             in case infoHash of
                  None \<Rightarrow> Done self (error socket ''invalid info_hash'')
                | Some infoHash \<Rightarrow>
                    if infoHash = [] then Done self (error socket ''invalid info_hash'')
                    else if length infoHash \<noteq> 20 then Done self (error socket ''invalid info_hash'')
                    else
                      (case peerId of
                         None \<Rightarrow> Done self (error socket ''invalid peer_id'')
                       | Some peerId \<Rightarrow>
                           if peerId = [] then Done self (error socket ''invalid peer_id'')
                           else if length peerId \<noteq> 20 then
                             Done self (error socket ''invalid peer_id'')
                           else announce rt self socket data infoHash peerId)))"

text \<open>
  A run of the server over the messages of its connections, each with the socket it came
  in on. An uncaught exception ends the run.
\<close>

fun run :: "runtime \<Rightarrow> server \<Rightarrow> (nat \<times> json option) list \<Rightarrow> outcome" where
  "run rt self [] = Done self []"
| "run rt self ((socket, parsed) # rest) =
     (case onSocketMessage rt self socket parsed of
        Threw self' \<Rightarrow> Threw self'
      | Done self' effects \<Rightarrow>
          (case run rt self' rest of
             Threw self'' \<Rightarrow> Threw self''
           | Done self'' effects' \<Rightarrow> Done self'' (effects @ effects')))"

fun state_of :: "outcome \<Rightarrow> server" where
  "state_of (Threw self) = self"
| "state_of (Done self effects) = self"

text \<open>
  \<open>Server.prototype.getSwarm\<close>. Its argument is a \<open>Buffer\<close> or a string of hex digits.
  \<open>toString('binary')\<close> turns every byte into the code unit of the same value.
  \<open>new Buffer(s, 'hex')\<close> reads two hex digits, of either case, per byte; on any other
  string its result depends on the Node version (an exception or a shorter buffer) and is not
  modelled (\<open>None\<close>).
\<close>

definition binary_string :: "byte list \<Rightarrow> jsstring" where
  "binary_string b = map ucast b"

definition hex_digit_value :: "16 word \<Rightarrow> nat option" where
  "hex_digit_value c =
     (let n = unat c in
      if 48 \<le> n \<and> n \<le> 57 then Some (n - 48)
      else if 97 \<le> n \<and> n \<le> 102 then Some (n - 87)
      else if 65 \<le> n \<and> n \<le> 70 then Some (n - 55)
      else None)"

fun hex_decode :: "jsstring \<Rightarrow> byte list option" where
  "hex_decode [] = Some []"
| "hex_decode [c] = None"
| "hex_decode (c1 # c2 # rest) =
     (case hex_digit_value c1 of
        None \<Rightarrow> None
      | Some h \<Rightarrow>
          (case hex_digit_value c2 of
             None \<Rightarrow> None
           | Some l \<Rightarrow> map_option ((#) (of_nat (16 * h + l))) (hex_decode rest)))"

datatype infoHash_arg = IsBuffer "byte list" | HexString jsstring

fun getSwarm :: "server \<Rightarrow> infoHash_arg \<Rightarrow> (swarm slot \<times> server) option" where
  "getSwarm self (IsBuffer b) = Some (internal_getSwarm self (binary_string b))"
| "getSwarm self (HexString s) =
     map_option (\<lambda>b. internal_getSwarm self (binary_string b)) (hex_decode s)"

text \<open>
  The hex-encoded string form of a hash, as the specification calls it: two lower-case
  digits per byte, high nibble first (what \<open>toString('hex')\<close> gives).
\<close>

definition hex_digit :: "nat \<Rightarrow> 16 word" where
  "hex_digit n = of_nat (if n < 10 then 48 + n else 87 + n)"

definition hex_encode :: "byte list \<Rightarrow> jsstring" where
  "hex_encode bs = concat (map (\<lambda>b. [hex_digit (unat b div 16), hex_digit (unat b mod 16)]) bs)"

section \<open>The reconnecting client\<close>

text \<open>
  A \<open>WebSocket\<close> object as the client sees it: whether each of its four handler
  properties is set, whether the \<open>once\<close> wrapper around \<open>_onerror\<close> has run, and how often
  \<open>close()\<close> was called on it.
\<close>

record websocket =
  onopen :: bool
  onmessage :: bool
  onclose :: bool
  onerror :: bool
  onerror_called :: bool
  close_calls :: nat

text \<open>What the client emits: \<open>ready\<close>, \<open>warning\<close>, \<open>close\<close> and \<open>message\<close>.\<close>

datatype notification = Ready | Warned string | Closed | Received "json + jsstring"

text \<open>
  The \<open>Socket\<close>: \<open>_reconnectTimeout\<close>, \<open>_errored\<close>, \<open>_ws\<close> (an index into the \<open>WebSocket\<close>
  objects created so far, \<open>None\<close> for \<open>null\<close>), the delays of the pending calls of
  \<open>setTimeout(this._init.bind(this), ...)\<close>, and what it has emitted.
\<close>

record client =
  reconnectTimeout :: nat
  errored :: bool
  ws :: "nat option"
  sockets :: "websocket list"
  timers :: "nat list"
  notified :: "notification list"

definition RECONNECT_TIMEOUT :: nat where
  "RECONNECT_TIMEOUT = 5000"

text \<open>\<open>Socket.prototype._init\<close>: a new \<open>WebSocket\<close> with the four handlers set.\<close>

definition init :: "client \<Rightarrow> client" where
  "init this =
     this\<lparr>errored := False,
          ws := Some (length (sockets this)),
          sockets := sockets this @
            [\<lparr>onopen = True, onmessage = True, onclose = True, onerror = True,
              onerror_called = False, close_calls = 0\<rparr>]\<rparr>"

text \<open>The constructor: \<open>opts.reconnectTimeout || RECONNECT_TIMEOUT\<close>, then \<open>_init\<close>.\<close>

definition Socket :: "nat option \<Rightarrow> client" where
  "Socket opts_reconnectTimeout =
     init \<lparr>reconnectTimeout =
             (case opts_reconnectTimeout of
                None \<Rightarrow> RECONNECT_TIMEOUT
              | Some t \<Rightarrow> if t = 0 then RECONNECT_TIMEOUT else t),
           errored = False, ws = None, sockets = [], timers = [], notified = []\<rparr>"

definition emit :: "notification \<Rightarrow> client \<Rightarrow> client" where
  "emit n this = this\<lparr>notified := notified this @ [n]\<rparr>"

text \<open>\<open>Socket.prototype._onopen\<close>\<close>

definition on_open :: "client \<Rightarrow> client" where
  "on_open this = emit Ready this"

text \<open>
  \<open>Socket.prototype._onclose\<close>: the handlers of the current \<open>WebSocket\<close> are cleared,
  \<open>_ws\<close> becomes \<open>null\<close>, and \<open>close\<close> is emitted unless \<open>_errored\<close> is set.
\<close>

definition on_close :: "client \<Rightarrow> client" where
  "on_close this =
     (let this1 =
            (case ws this of
               Some i \<Rightarrow>
                 this\<lparr>sockets := (sockets this)
                   [i := (sockets this ! i)
                      \<lparr>onopen := False, onerror := False, onmessage := False, onclose := False\<rparr>]\<rparr>
             | None \<Rightarrow> this);
          this2 = this1\<lparr>ws := None\<rparr>
      in if \<not> errored this2 then emit Closed this2 else this2)"

text \<open>
  \<open>Socket.prototype.close\<close>: \<open>this._ws.close()\<close>; when \<open>_ws\<close> is \<open>null\<close> the call throws
  and the \<open>catch\<close> runs \<open>_onclose\<close>.
\<close>

definition close :: "client \<Rightarrow> client" where
  "close this =
     (case ws this of
        Some i \<Rightarrow>
          this\<lparr>sockets := (sockets this)
            [i := (sockets this ! i)\<lparr>close_calls := close_calls (sockets this ! i) + 1\<rparr>]\<rparr>
      | None \<Rightarrow> on_close this)"

text \<open>\<open>Socket.prototype._onerror\<close>\<close>

definition on_error :: "string \<Rightarrow> client \<Rightarrow> client" where
  "on_error err this =
     (let this1 = close (this\<lparr>errored := True\<rparr>);
          this2 = this1\<lparr>timers := timers this1 @ [reconnectTimeout this1]\<rparr>
      in emit (Warned err) this2)"

text \<open>
  \<open>Socket.prototype._onmessage\<close>: the parsed message, or the text when \<open>JSON.parse\<close>
  throws (\<open>parsed = None\<close>).
\<close>

definition on_message :: "jsstring \<Rightarrow> json option \<Rightarrow> client \<Rightarrow> client" where
  "on_message data parsed this =
     emit (Received (case parsed of Some v \<Rightarrow> Inl v | None \<Rightarrow> Inr data)) this"

text \<open>
  An event of the \<open>WebSocket\<close> number \<open>i\<close> runs the handler set on that object, if any.
  The \<open>onerror\<close> property holds \<open>once(this._onerror.bind(this))\<close>, which calls \<open>_onerror\<close>
  the first time only.
\<close>

datatype ws_event = Open | Message jsstring "json option" | Error string | Close

definition deliver :: "nat \<Rightarrow> ws_event \<Rightarrow> client \<Rightarrow> client" where
  "deliver i ev this =
     (if i < length (sockets this) then
        (let w = sockets this ! i in
         case ev of
           Open \<Rightarrow> if onopen w then on_open this else this
         | Message data parsed \<Rightarrow> if onmessage w then on_message data parsed this else this
         | Error err \<Rightarrow>
             if onerror w \<and> \<not> onerror_called w then
               on_error err (this\<lparr>sockets := (sockets this)[i := w\<lparr>onerror_called := True\<rparr>]\<rparr>)
             else this
         | Close \<Rightarrow> if onclose w then on_close this else this)
      else this)"

text \<open>The pending timeout number \<open>k\<close> fires: \<open>_init\<close> runs.\<close>

definition timeout :: "nat \<Rightarrow> client \<Rightarrow> client" where
  "timeout k this =
     (if k < length (timers this) then
        init (this\<lparr>timers := take k (timers this) @ drop (Suc k) (timers this)\<rparr>)
      else this)"



fun is_warning :: "notification \<Rightarrow> bool" where
  "is_warning (Warned err) = True"
| "is_warning _ = False"


definition warnings :: "notification list \<Rightarrow> nat" where
  "warnings ns = length (filter is_warning ns)"

definition closes :: "notification list \<Rightarrow> nat" where
  "closes ns = length (filter (\<lambda>n. n = Closed) ns)"

section \<open>Notions used in the statements\<close>

text \<open>
  The ids of a message that passes the checks of lines 105 to 111: a string \<open>info_hash\<close> of
  20 code units and a string \<open>peer_id\<close> that \<open>binaryToUtf8\<close> decodes to 20 code units.
\<close>

definition ids_of :: "runtime \<Rightarrow> json \<Rightarrow> (jsstring \<times> jsstring) option" where
  "ids_of rt data =
     (case string_or_false (fld data ''info_hash'') of
        None \<Rightarrow> None
      | Some infoHash \<Rightarrow>
          if length infoHash \<noteq> 20 then None
          else
            (case string_or_false (fld data ''peer_id'') of
               None \<Rightarrow> None
             | Some peer_id \<Rightarrow>
                 if length (binaryToUtf8 rt peer_id) \<noteq> 20 then None
                 else Some (infoHash, binaryToUtf8 rt peer_id)))"

text \<open>
  A valid announce of a named event: its ids pass the checks, and \<open>Number\<close> throws neither
  on its \<open>offers\<close> nor on its \<open>left\<close> (it never does when \<open>offers\<close> is absent or an array and
  \<open>left\<close> is absent or a number).
\<close>

definition valid_announce :: "runtime \<Rightarrow> json \<Rightarrow> jsstring \<Rightarrow> jsstring \<Rightarrow> string \<Rightarrow> bool" where
  "valid_announce rt data infoHash peerId event \<longleftrightarrow>
     ids_of rt data = Some (infoHash, peerId) \<and>
     fld data ''event'' = Some (JStr (js event)) \<and>
     numWant_of rt data \<noteq> None \<and>
     Number rt (fld data ''left'') \<noteq> None"

text \<open>The values of \<open>data.event\<close> that have a \<open>case\<close> label in the switch.\<close>

definition recognized_event :: "json option \<Rightarrow> bool" where
  "recognized_event event \<longleftrightarrow>
     event = Some (JStr (js ''started'')) \<or> event = Some (JStr (js ''stopped'')) \<or>
     event = Some (JStr (js ''completed'')) \<or> event = Some (JStr []) \<or> event = None \<or>
     event = Some (JStr (js ''answered''))"

text \<open>The sum of the two counters of the swarm under a key (0 when there is none).\<close>

definition counted :: "server \<Rightarrow> jsstring \<Rightarrow> int" where
  "counted self infoHash =
     (case torrents self infoHash of
        None \<Rightarrow> 0
      | Some swarm \<Rightarrow> complete swarm + incomplete swarm)"

text \<open>The peers of a table that are not \<open>null\<close>, in the order of enumeration.\<close>

fun live_peers :: "peer_table \<Rightarrow> peer list" where
  "live_peers [] = []"
| "live_peers ((k, None) # rest) = live_peers rest"
| "live_peers ((k, Some p) # rest) = p # live_peers rest"

definition present :: "server \<Rightarrow> jsstring \<Rightarrow> nat" where
  "present self infoHash =
     (case torrents self infoHash of
        None \<Rightarrow> 0
      | Some swarm \<Rightarrow> length (live_peers (peers swarm)))"

text \<open>The invariant of the data model: the counters add up to the number of live peers.\<close>

definition swarm_counted :: "swarm \<Rightarrow> bool" where
  "swarm_counted swarm \<longleftrightarrow>
     complete swarm + incomplete swarm = int (length (live_peers (peers swarm)))"

definition server_counted :: "server \<Rightarrow> bool" where
  "server_counted self \<longleftrightarrow> (\<forall>k swarm. torrents self k = Some swarm \<longrightarrow> swarm_counted swarm)"

text \<open>Messages none of whose peer ids is the name of an inherited property.\<close>

definition plain_peer_ids :: "runtime \<Rightarrow> (nat \<times> json option) list \<Rightarrow> bool" where
  "plain_peer_ids rt messages \<longleftrightarrow>
     (\<forall>(socket, parsed) \<in> set messages.
        \<forall>data infoHash peerId.
          parsed = Some data \<and> ids_of rt data = Some (infoHash, peerId) \<longrightarrow>
          peerId \<notin> set object_prototype_names)"

text \<open>
  The three phases of a connection attempt begun by \<open>_init\<close> in the state \<open>c\<close>: no error
  and no close so far; an error was reported; the connection closed without an error.
\<close>

definition same_attempt :: "client \<Rightarrow> client \<Rightarrow> bool" where
  "same_attempt c s \<longleftrightarrow>
     length (sockets s) = Suc (length (sockets c)) \<and> reconnectTimeout s = reconnectTimeout c"




section \<open>Concrete messages and states\<close>

text \<open>
  For runs on concrete input: a runtime for messages in 7-bit ASCII, on which UTF-8
  decoding is the identity. Its \<open>to_number\<close> is never consulted by the runs below, whose
  messages give \<open>left\<close> as a number and \<open>offers\<close> as an array.
\<close>

definition ascii_runtime :: runtime where
  "ascii_runtime = \<lparr>utf8_decode = map ucast, to_number = (\<lambda>v. Some NaN)\<rparr>"

definition message :: "(string \<times> json) list \<Rightarrow> json" where
  "message members = JObj (map (\<lambda>(name, v). (js name, v)) members)"

definition hash1 :: jsstring where
  "hash1 = js ''0123456789abcdefghij''"

definition peer1 :: jsstring where
  "peer1 = js ''-WW0001-aaaaaaaaaaaa''"

definition peer2 :: jsstring where
  "peer2 = js ''-WW0001-bbbbbbbbbbbb''"

text \<open>\<open>{info_hash: hash1, peer_id: peer_id, event: event, left: left, offers: offers}\<close>\<close>

definition announce_message :: "jsstring \<Rightarrow> string \<Rightarrow> real \<Rightarrow> json list \<Rightarrow> json" where
  "announce_message peer_id event left offers =
     message [(''info_hash'', JStr hash1), (''peer_id'', JStr peer_id), (''event'', JStr (js event)),
              (''left'', JNum (Fin left)), (''offers'', JArr offers)]"

text \<open>
  A server with one swarm of two leeching peers, \<open>peer1\<close> on socket 1 and \<open>peer2\<close> on
  socket 2, and one whose only peer has completed.
\<close>

definition two_peers_swarm :: swarm where
  "two_peers_swarm =
     \<lparr>complete = 0, incomplete = 2,
      peers = [(peer1, Some \<lparr>peer_socket = 1, peer_peerId = peer1, peer_complete = False\<rparr>),
               (peer2, Some \<lparr>peer_socket = 2, peer_peerId = peer2, peer_complete = False\<rparr>)]\<rparr>"

definition two_peers :: server where
  "two_peers = \<lparr>intervalMs = 600, torrents = [hash1 \<mapsto> two_peers_swarm], marked_complete = {}\<rparr>"

definition seeded_swarm :: swarm where
  "seeded_swarm =
     \<lparr>complete = 1, incomplete = 0,
      peers = [(peer1, Some \<lparr>peer_socket = 1, peer_peerId = peer1, peer_complete = True\<rparr>)]\<rparr>"

definition seeded :: server where
  "seeded = \<lparr>intervalMs = 600, torrents = [hash1 \<mapsto> seeded_swarm], marked_complete = {}\<rparr>"

section \<open>How the handler runs\<close>

lemmas handler_defs =
  onSocketMessage_def announce_def internal_getSwarm_def switch_event_def numWant_of_def
  peers_get_def binaryToUtf8_def or_zero_def MAX_ANNOUNCE_PEERS_def new_swarm_def
  internal_getPeers_def introductions_def error_def object_prototype_names_def js_def

lemmas example_defs =
  ascii_runtime_def message_def announce_message_def hash1_def peer1_def peer2_def
  Server_def counted_def present_def two_peers_def two_peers_swarm_def seeded_def
  seeded_swarm_def ids_of_def valid_announce_def recognized_event_def

lemma ids_of_SomeD:
  assumes "ids_of rt data = Some (infoHash, peerId)"
  shows "data \<noteq> JNull" "length infoHash = 20" "length peerId = 20"
    "string_or_false (fld data ''info_hash'') = Some infoHash"
    "map_option (binaryToUtf8 rt) (string_or_false (fld data ''peer_id'')) = Some peerId"
  using assms by (auto simp: ids_of_def split: option.splits if_splits)

lemma onSocketMessage_ids:
  assumes "ids_of rt data = Some (infoHash, peerId)"
  shows "onSocketMessage rt self socket (Some data) = announce rt self socket data infoHash peerId"
proof -
  note d = ids_of_SomeD [OF assms]
  from d(2,3) have "infoHash \<noteq> []" "peerId \<noteq> []" by auto
  with d show ?thesis by (auto simp: onSocketMessage_def)
qed

lemma onSocketMessage_no_ids:
  assumes "data \<noteq> JNull" "ids_of rt data = None"
  shows "onSocketMessage rt self socket (Some data) = Done self (error socket ''invalid info_hash'')
       \<or> onSocketMessage rt self socket (Some data) = Done self (error socket ''invalid peer_id'')"
  using assms
  by (auto simp: onSocketMessage_def ids_of_def split: option.splits if_splits)

lemma getSwarm_existing:
  "torrents self k = Some swarm \<Longrightarrow> internal_getSwarm self k = (Own swarm, self)"
  by (simp add: internal_getSwarm_def)

lemma getSwarm_OwnD:
  assumes "internal_getSwarm self k = (Own swarm, self1)"
  shows "torrents self1 k = Some swarm"
    and "torrents self1 = (torrents self)(k \<mapsto> swarm)"
    and "intervalMs self1 = intervalMs self"
    and "marked_complete self1 = marked_complete self"
    and "torrents self k = Some swarm \<and> self1 = self \<or> torrents self k = None \<and> swarm = new_swarm"
  using assms
  by (auto simp: internal_getSwarm_def map_upd_triv split: option.splits if_splits)

lemma getSwarm_again:
  assumes "internal_getSwarm self k = (r, self1)"
  shows "internal_getSwarm self1 k = (r, self1)"
  using assms by (auto simp: internal_getSwarm_def split: option.splits if_splits)

lemma server_write_back:
  "torrents self k = Some swarm \<Longrightarrow>
   self\<lparr>torrents := (torrents self)(k \<mapsto> swarm), marked_complete := marked_complete self\<rparr> = self"
  by (simp add: map_upd_triv)

subsection \<open>The peers selected\<close>

lemma getPeers_loop_take:
  "getPeers_loop ps (Fin (real n)) acc =
     (if n \<le> length acc then acc else acc @ take (n - length acc) (live_peers ps))"
proof (induction ps arbitrary: acc)
  case Nil
  then show ?case by simp
next
  case (Cons a ps)
  obtain k v where a: "a = (k, v)" by (cases a)
  show ?case
  proof (cases v)
    case None
    with a Cons show ?thesis by simp
  next
    case (Some p)
    show ?thesis
    proof (cases "n \<le> length acc")
      case True
      with a Some show ?thesis by simp
    next
      case False
      then obtain m where m: "n - length acc = Suc m" by (cases "n - length acc") auto
      then have m': "n - Suc (length acc) = m" by simp
      from False a Some Cons [of "acc @ [p]"] m m' show ?thesis by auto
    qed
  qed
qed

lemma internal_getPeers_take:
  "internal_getPeers swarm (Fin (real n)) = take n (live_peers (peers swarm))"
  by (simp add: internal_getPeers_def getPeers_loop_take)

lemma numWant_array:
  "fld data ''offers'' = Some (JArr offers) \<Longrightarrow>
   numWant_of rt data = Some (Fin (real (min (length offers) 20)))"
  by (auto simp: numWant_of_def or_zero_def MAX_ANNOUNCE_PEERS_def min_def)

lemma numWant_absent:
  "fld data ''offers'' = None \<Longrightarrow> numWant_of rt data = Some (Fin (real 0))"
  by (simp add: numWant_of_def or_zero_def MAX_ANNOUNCE_PEERS_def)

text \<open>
  When \<open>data.offers\<close> is absent or \<open>null\<close>, \<open>numWant\<close> is 0 and no peer is selected, so
  \<open>data.offers[i]\<close>, which would throw, is never evaluated.
\<close>

lemma numWant_null:
  "fld data ''offers'' = None \<or> fld data ''offers'' = Some JNull \<Longrightarrow>
   numWant_of rt data = Some (Fin 0)"
  by (auto simp: numWant_of_def or_zero_def MAX_ANNOUNCE_PEERS_def)

lemma internal_getPeers_none: "internal_getPeers swarm (Fin 0) = []"
  using internal_getPeers_take [of swarm 0] by simp

lemma introductions_length [simp]: "length (introductions ps offers from_peer_id) = length ps"
  by (simp add: introductions_def)

lemma introductions_nth:
  assumes "i < length ps"
  shows "introductions ps offers from_peer_id ! i =
         Send (peer_socket (ps ! i)) (Introduction (index_get offers i) from_peer_id)"
  using assms by (simp add: introductions_def nth_enumerate_eq)

subsection \<open>The branches of the switch\<close>

lemma event_names_distinct:
  "js ''stopped'' \<noteq> js ''started''" "js ''completed'' \<noteq> js ''started''"
  "js ''completed'' \<noteq> js ''stopped''" "js ''answered'' \<noteq> js ''started''"
  "js ''answered'' \<noteq> js ''stopped''" "js ''answered'' \<noteq> js ''completed''"
  "js ''started'' \<noteq> []" "js ''stopped'' \<noteq> []" "js ''completed'' \<noteq> []"
  "js ''answered'' \<noteq> []"
  by (simp_all add: js_def)

lemma switch_started_duplicate:
  assumes "fld data ''event'' = Some (JStr (js ''started''))" "truthy peer"
  shows "switch_event rt self socket data peerId swarm peer =
         Break swarm (marked_complete self) []
           (Some ''unexpected `started` event from peer that is already in swarm'')"
  using assms by (simp add: switch_event_def)

lemma switch_started_new:
  assumes "fld data ''event'' = Some (JStr (js ''started''))" "\<not> truthy peer"
    and "Number rt (fld data ''left'') = Some left"
  shows "switch_event rt self socket data peerId swarm peer =
         Break
           ((if left = Fin 0 then swarm\<lparr>complete := complete swarm + 1\<rparr>
             else swarm\<lparr>incomplete := incomplete swarm + 1\<rparr>)
            \<lparr>peers := AList.update peerId
                (Some \<lparr>peer_socket = socket, peer_peerId = peerId, peer_complete = False\<rparr>)
                (peers swarm)\<rparr>)
           (marked_complete self) [Emit ''start''] None"
  using assms by (simp add: switch_event_def)

lemma switch_stopped_present:
  assumes "fld data ''event'' = Some (JStr (js ''stopped''))" "truthy peer"
  shows "switch_event rt self socket data peerId swarm peer =
         Break
           ((if is_complete self peer then swarm\<lparr>complete := complete swarm - 1\<rparr>
             else swarm\<lparr>incomplete := incomplete swarm - 1\<rparr>)
            \<lparr>peers := AList.update peerId None (peers swarm)\<rparr>)
           (marked_complete self) [Emit ''stop''] None"
  using assms by (simp add: switch_event_def event_names_distinct)

lemma switch_completed_again:
  assumes "fld data ''event'' = Some (JStr (js ''completed''))" "truthy peer"
    "is_complete self peer"
  shows "switch_event rt self socket data peerId swarm peer =
         Break swarm (marked_complete self) []
           (Some ''unexpected `completed` event from peer that is already marked as completed'')"
  using assms by (simp add: switch_event_def event_names_distinct)

lemma switch_unrecognized:
  assumes "\<not> recognized_event (fld data ''event'')"
  shows "switch_event rt self socket data peerId swarm peer =
         Return (Done self (error socket ''invalid event''))"
  using assms by (auto simp: switch_event_def recognized_event_def Let_def)

lemma switch_event_Return_state:
  assumes "switch_event rt self socket data peerId swarm peer = Return out"
  shows "state_of out = self"
  using assms
  by (auto simp: switch_event_def Let_def split: if_splits option.splits slot.splits)

lemma announce_Break:
  assumes "internal_getSwarm self infoHash = (Own swarm, self1)"
    and "numWant_of rt data = Some n"
    and "switch_event rt self1 socket data peerId swarm (peers_get (peers swarm) peerId) =
         Break swarm' marks emitted warning"
  shows "announce rt self socket data infoHash peerId =
         Done (self1\<lparr>torrents := (torrents self1)(infoHash \<mapsto> swarm'), marked_complete := marks\<rparr>)
           (emitted
            @ [Send socket (Response (complete swarm') (incomplete swarm') (intervalMs self1) warning)]
            @ introductions (internal_getPeers swarm' n) (fld data ''offers'') peerId)"
  using assms by (simp add: announce_def)

lemma announce_Return:
  assumes "internal_getSwarm self infoHash = (Own swarm, self1)"
    and "numWant_of rt data = Some n"
    and "switch_event rt self1 socket data peerId swarm (peers_get (peers swarm) peerId) =
         Return out"
  shows "announce rt self socket data infoHash peerId = out"
  using assms by (simp add: announce_def)

subsection \<open>Reading and writing the peer table\<close>

lemma peers_get_update_same:
  "peers_get (AList.update k v ps) k = (case v of None \<Rightarrow> Null | Some p \<Rightarrow> Own p)"
  by (simp add: peers_get_def update_conv' split: option.split)

lemma peers_get_cases:
  assumes "k \<notin> set object_prototype_names"
  shows "map_of ps k = None \<and> peers_get ps k = Undefined
       \<or> map_of ps k = Some None \<and> peers_get ps k = Null
       \<or> (\<exists>p. map_of ps k = Some (Some p) \<and> peers_get ps k = Own p)"
  using assms by (cases "map_of ps k") (auto simp: peers_get_def)

lemma live_update_new:
  "map_of ps k = None \<or> map_of ps k = Some None \<Longrightarrow>
   length (live_peers (AList.update k (Some p) ps)) = Suc (length (live_peers ps))"
  by (induction ps rule: live_peers.induct) (auto split: if_splits)

lemma live_update_remove:
  "map_of ps k = Some (Some p) \<Longrightarrow>
   Suc (length (live_peers (AList.update k None ps))) = length (live_peers ps)"
  by (induction ps rule: live_peers.induct) (auto split: if_splits)

lemma live_update_replace:
  "map_of ps k = Some (Some p) \<Longrightarrow>
   length (live_peers (AList.update k (Some q) ps)) = length (live_peers ps)"
  by (induction ps rule: live_peers.induct) (auto split: if_splits)

lemma getSwarm_counted:
  assumes "internal_getSwarm self k = (Own swarm, self1)"
  shows "counted self k = complete swarm + incomplete swarm"
  using getSwarm_OwnD(5) [OF assms] by (auto simp: counted_def new_swarm_def)


section \<open>The counters\<close>

lemma switch_event_counted:
  assumes sw: "switch_event rt self socket data peerId swarm (peers_get (peers swarm) peerId) =
      Break swarm' marks emitted warning"
    and c: "swarm_counted swarm"
    and plain: "peerId \<notin> set object_prototype_names"
  shows "swarm_counted swarm'"
proof -
  from peers_get_cases [OF plain, of "peers swarm"] consider
    (absent) "map_of (peers swarm) peerId = None" "peers_get (peers swarm) peerId = Undefined"
  | (null) "map_of (peers swarm) peerId = Some None" "peers_get (peers swarm) peerId = Null"
  | (own) p where "map_of (peers swarm) peerId = Some (Some p)"
      "peers_get (peers swarm) peerId = Own p"
    by auto
  then show ?thesis
  proof cases
    case absent
    with sw c show ?thesis
      by (auto simp: switch_event_def swarm_counted_def live_update_new Let_def
          split: if_splits option.splits)
  next
    case null
    with sw c show ?thesis
      by (auto simp: switch_event_def swarm_counted_def live_update_new Let_def
          split: if_splits option.splits)
  next
    case own
    with sw c live_update_remove [OF own(1)] show ?thesis
      by (auto simp: switch_event_def swarm_counted_def live_update_replace Let_def
          split: if_splits option.splits slot.splits)
  qed
qed

lemma server_counted_getSwarm:
  assumes "server_counted self" "internal_getSwarm self k = (r, self1)"
  shows "server_counted self1"
  using assms
  by (auto simp: server_counted_def internal_getSwarm_def swarm_counted_def new_swarm_def
      split: option.splits if_splits)

lemma announce_keeps_count:
  assumes c: "server_counted self" and plain: "peerId \<notin> set object_prototype_names"
  shows "server_counted (state_of (announce rt self socket data infoHash peerId))"
proof -
  obtain r self1 where g: "internal_getSwarm self infoHash = (r, self1)"
    by (cases "internal_getSwarm self infoHash")
  have c1: "server_counted self1" by (rule server_counted_getSwarm [OF c g])
  show ?thesis
  proof (cases r)
    case (Own swarm)
    with g have t: "torrents self1 infoHash = Some swarm" by (simp add: getSwarm_OwnD(1))
    with c1 have cs: "swarm_counted swarm" by (simp add: server_counted_def)
    show ?thesis
    proof (cases "numWant_of rt data")
      case None
      with g Own c1 show ?thesis by (simp add: announce_def)
    next
      case (Some n)
      show ?thesis
      proof (cases "switch_event rt self1 socket data peerId swarm (peers_get (peers swarm) peerId)")
        case (Return out)
        with g Own Some c1 switch_event_Return_state [OF Return] show ?thesis
          by (simp add: announce_def)
      next
        case (Break swarm' marks emitted warning)
        from switch_event_counted [OF Break cs plain] c1 g Own Some Break show ?thesis
          by (simp add: announce_def server_counted_def)
      qed
    qed
  qed (use g c1 in \<open>simp_all add: announce_def\<close>)
qed

lemma onSocketMessage_keeps_count:
  assumes "server_counted self"
    and "\<And>data infoHash peerId. parsed = Some data \<Longrightarrow> ids_of rt data = Some (infoHash, peerId) \<Longrightarrow>
           peerId \<notin> set object_prototype_names"
  shows "server_counted (state_of (onSocketMessage rt self socket parsed))"
proof (cases parsed)
  case None
  with assms(1) show ?thesis by (simp add: onSocketMessage_def)
next
  case (Some data)
  show ?thesis
  proof (cases "ids_of rt data")
    case None
    show ?thesis
    proof (cases "data = JNull")
      case True
      with Some assms(1) show ?thesis by (simp add: onSocketMessage_def)
    next
      case False
      from onSocketMessage_no_ids [OF False None, of self socket] Some assms(1)
      show ?thesis by auto
    qed
  next
    case (Some ids)
    obtain infoHash peerId where ids: "ids = (infoHash, peerId)" by (cases ids)
    with Some \<open>parsed = Some data\<close> assms show ?thesis
      by (simp add: onSocketMessage_ids announce_keeps_count)
  qed
qed

text \<open>
  For every run from a new server in which no peer id is the name of an inherited
  property, every swarm keeps \<open>complete + incomplete\<close> equal to the number of its peers
  that are not \<open>null\<close>.
\<close>

lemma run_keeps_count:
  assumes "server_counted self" "plain_peer_ids rt messages"
  shows "server_counted (state_of (run rt self messages))"
  using assms
proof (induction messages arbitrary: self)
  case Nil
  then show ?case by simp
next
  case (Cons m messages)
  obtain socket parsed where m: "m = (socket, parsed)" by (cases m)
  from Cons.prems have step: "server_counted (state_of (onSocketMessage rt self socket parsed))"
    by (intro onSocketMessage_keeps_count) (auto simp: plain_peer_ids_def m)
  from Cons.prems have rest: "plain_peer_ids rt messages" by (simp add: plain_peer_ids_def)
  show ?case
  proof (cases "onSocketMessage rt self socket parsed")
    case (Threw self')
    with step m show ?thesis by simp
  next
    case (Done self' effects)
    with step have "server_counted self'" by simp
    from Cons.IH [OF this rest] Done m show ?thesis
      by (cases "run rt self' messages") simp_all
  qed
qed

lemma server_counted_new: "server_counted (Server interval)"
  by (simp add: server_counted_def Server_def)

text \<open>
  C1. The specification: for every sequence of valid announce messages, each swarm keeps
  \<open>complete + incomplete\<close> equal to the number of peer entries that are not \<open>null\<close>. The
  code: \<open>propertyIsEnumerable\<close> is a peer id of 20 characters for which
  \<open>swarm.peers[peerId]\<close> is an inherited function, so the peer counts as present before
  it has an entry. Its \<open>started\<close> is skipped as a duplicate, and its \<open>stopped\<close> then
  decrements \<open>incomplete\<close> and removes no peer: after the two messages on a new server
  the counters add up to -1 and the swarm has no peer.
\<close>

theorem stopped_inherited_name_breaks_count:
  "(counted
      (state_of (run ascii_runtime (Server None)
         [(1, Some (announce_message (js ''propertyIsEnumerable'') ''started'' 5 [])),
          (1, Some (announce_message (js ''propertyIsEnumerable'') ''stopped'' 5 []))]))
      hash1,
    present
      (state_of (run ascii_runtime (Server None)
         [(1, Some (announce_message (js ''propertyIsEnumerable'') ''started'' 5 [])),
          (1, Some (announce_message (js ''propertyIsEnumerable'') ''stopped'' 5 []))]))
      hash1)
   = (- 1, 0)"
  by (simp add: handler_defs example_defs)

text \<open>
  C2. The specification: after every message the counters \<open>complete\<close> and \<open>incomplete\<close> of a swarm
  are non-negative. The code: a peer that starts with \<open>left = 0\<close> is counted in \<open>complete\<close>
  but its \<open>complete\<close> flag is not set (only the \<open>completed\<close> branch sets it), so when it
  stops, \<open>incomplete\<close> is decremented: after \<open>started\<close> and \<open>stopped\<close> of one seeding peer
  on a new server the swarm has \<open>complete = 1\<close> and \<open>incomplete = -1\<close>.
\<close>

theorem seeder_stop_makes_incomplete_negative:
  "map_option (\<lambda>swarm. (complete swarm, incomplete swarm))
     (torrents
        (state_of (run ascii_runtime (Server None)
           [(1, Some (announce_message peer1 ''started'' 0 [])),
            (1, Some (announce_message peer1 ''stopped'' 0 []))]))
        hash1)
   = Some (1, - 1)"
  by (simp add: handler_defs example_defs)


section \<open>Starting and stopping\<close>

lemma started_step:
  assumes va: "valid_announce rt data infoHash peerId ''started''"
    and gs: "internal_getSwarm self infoHash = (Own swarm, self1)"
    and absent: "\<not> truthy (peers_get (peers swarm) peerId)"
  shows "\<exists>swarm' rest.
           onSocketMessage rt self socket (Some data) =
             Done (self1\<lparr>torrents := (torrents self1)(infoHash \<mapsto> swarm'),
                     marked_complete := marked_complete self1\<rparr>)
               (Emit ''start''
                # Send socket (Response (complete swarm') (incomplete swarm') (intervalMs self1) None)
                # rest) \<and>
           complete swarm' + incomplete swarm' = complete swarm + incomplete swarm + 1 \<and>
           peers_get (peers swarm') peerId =
             Own \<lparr>peer_socket = socket, peer_peerId = peerId, peer_complete = False\<rparr>"
proof -
  from va obtain left n where ids: "ids_of rt data = Some (infoHash, peerId)"
    and ev: "fld data ''event'' = Some (JStr (js ''started''))"
    and n: "numWant_of rt data = Some n"
    and left: "Number rt (fld data ''left'') = Some left"
    by (auto simp: valid_announce_def)
  let ?swarm' = "(if left = Fin 0 then swarm\<lparr>complete := complete swarm + 1\<rparr>
                  else swarm\<lparr>incomplete := incomplete swarm + 1\<rparr>)
                 \<lparr>peers := AList.update peerId
                     (Some \<lparr>peer_socket = socket, peer_peerId = peerId, peer_complete = False\<rparr>)
                     (peers swarm)\<rparr>"
  have "onSocketMessage rt self socket (Some data) =
      Done (self1\<lparr>torrents := (torrents self1)(infoHash \<mapsto> ?swarm'),
              marked_complete := marked_complete self1\<rparr>)
        (Emit ''start''
         # Send socket (Response (complete ?swarm') (incomplete ?swarm') (intervalMs self1) None)
         # introductions (internal_getPeers ?swarm' n) (fld data ''offers'') peerId)"
    using announce_Break [OF gs n switch_started_new [OF ev absent left]]
    by (simp add: onSocketMessage_ids [OF ids])
  moreover have "complete ?swarm' + incomplete ?swarm' = complete swarm + incomplete swarm + 1"
    by simp
  moreover have "peers_get (peers ?swarm') peerId =
      Own \<lparr>peer_socket = socket, peer_peerId = peerId, peer_complete = False\<rparr>"
    by (simp add: peers_get_update_same)
  ultimately show ?thesis by blast
qed

lemma stopped_step:
  assumes va: "valid_announce rt data infoHash peerId ''stopped''"
    and sw: "torrents self infoHash = Some swarm"
    and here: "peers_get (peers swarm) peerId = Own p"
  shows "\<exists>swarm' effects.
           onSocketMessage rt self socket (Some data) =
             Done (self\<lparr>torrents := (torrents self)(infoHash \<mapsto> swarm'),
                     marked_complete := marked_complete self\<rparr>) effects \<and>
           complete swarm' + incomplete swarm' = complete swarm + incomplete swarm - 1 \<and>
           peers_get (peers swarm') peerId = Null"
proof -
  from va obtain n where ids: "ids_of rt data = Some (infoHash, peerId)"
    and ev: "fld data ''event'' = Some (JStr (js ''stopped''))"
    and n: "numWant_of rt data = Some n"
    by (auto simp: valid_announce_def)
  let ?swarm' = "(if is_complete self (Own p) then swarm\<lparr>complete := complete swarm - 1\<rparr>
                  else swarm\<lparr>incomplete := incomplete swarm - 1\<rparr>)
                 \<lparr>peers := AList.update peerId None (peers swarm)\<rparr>"
  have t: "truthy (peers_get (peers swarm) peerId)" using here by simp
  have "onSocketMessage rt self socket (Some data) =
      Done (self\<lparr>torrents := (torrents self)(infoHash \<mapsto> ?swarm'),
              marked_complete := marked_complete self\<rparr>)
        (Emit ''stop''
         # Send socket (Response (complete ?swarm') (incomplete ?swarm') (intervalMs self) None)
         # introductions (internal_getPeers ?swarm' n) (fld data ''offers'') peerId)"
    using announce_Break [OF getSwarm_existing [OF sw] n switch_stopped_present [OF ev t]] here
    by (simp add: onSocketMessage_ids [OF ids])
  moreover have "complete ?swarm' + incomplete ?swarm' = complete swarm + incomplete swarm - 1"
    by simp
  moreover have "peers_get (peers ?swarm') peerId = Null"
    by (simp add: peers_get_update_same)
  ultimately show ?thesis by blast
qed

text \<open>
  C3 (amended). For every peer id that is not in the swarm (\<open>swarm.peers[peerId]\<close> is
  \<open>undefined\<close> or \<open>null\<close>) and every value of \<open>left\<close>: a valid \<open>started\<close> announce followed
  by a valid \<open>stopped\<close> announce of that peer id leaves \<open>complete + incomplete\<close> of the swarm
  as it was before the two, and a \<open>started\<close> announce of the same peer id after them is
  accepted: it emits \<open>start\<close>, its response carries no warning, and the swarm holds a new
  peer entry with the socket of that announce.
\<close>

theorem started_stopped_started:
  assumes d1: "valid_announce rt d1 infoHash peerId ''started''"
    and d2: "valid_announce rt d2 infoHash peerId ''stopped''"
    and d3: "valid_announce rt d3 infoHash peerId ''started''"
    and gs: "internal_getSwarm self infoHash = (Own swarm, self1)"
    and absent: "\<not> truthy (peers_get (peers swarm) peerId)"
  shows "\<exists>s2 e2 s3 x y rest swarm3.
           run rt self [(a, Some d1), (b, Some d2)] = Done s2 e2 \<and>
           counted s2 infoHash = counted self infoHash \<and>
           onSocketMessage rt s2 c (Some d3) =
             Done s3 (Emit ''start'' # Send c (Response x y (intervalMs self) None) # rest) \<and>
           torrents s3 infoHash = Some swarm3 \<and>
           peers_get (peers swarm3) peerId =
             Own \<lparr>peer_socket = c, peer_peerId = peerId, peer_complete = False\<rparr>"
proof -
  from started_step [OF d1 gs absent, of a] obtain sw1 rest1 where
    o1: "onSocketMessage rt self a (Some d1) =
      Done (self1\<lparr>torrents := (torrents self1)(infoHash \<mapsto> sw1),
              marked_complete := marked_complete self1\<rparr>)
        (Emit ''start''
         # Send a (Response (complete sw1) (incomplete sw1) (intervalMs self1) None) # rest1)"
    and c1: "complete sw1 + incomplete sw1 = complete swarm + incomplete swarm + 1"
    and p1: "peers_get (peers sw1) peerId =
      Own \<lparr>peer_socket = a, peer_peerId = peerId, peer_complete = False\<rparr>"
    by blast
  let ?s1 = "self1\<lparr>torrents := (torrents self1)(infoHash \<mapsto> sw1),
                marked_complete := marked_complete self1\<rparr>"
  have t1: "torrents ?s1 infoHash = Some sw1" by simp
  from stopped_step [OF d2 t1 p1, of b] obtain sw2 e2 where
    o2: "onSocketMessage rt ?s1 b (Some d2) =
      Done (?s1\<lparr>torrents := (torrents ?s1)(infoHash \<mapsto> sw2),
              marked_complete := marked_complete ?s1\<rparr>) e2"
    and c2: "complete sw2 + incomplete sw2 = complete sw1 + incomplete sw1 - 1"
    and p2: "peers_get (peers sw2) peerId = Null"
    by blast
  let ?s2 = "?s1\<lparr>torrents := (torrents ?s1)(infoHash \<mapsto> sw2),
               marked_complete := marked_complete ?s1\<rparr>"
  have t2: "torrents ?s2 infoHash = Some sw2" by simp
  have a2: "\<not> truthy (peers_get (peers sw2) peerId)" using p2 by simp
  from started_step [OF d3 getSwarm_existing [OF t2] a2, of c] obtain sw3 rest3 where
    o3: "onSocketMessage rt ?s2 c (Some d3) =
      Done (?s2\<lparr>torrents := (torrents ?s2)(infoHash \<mapsto> sw3),
              marked_complete := marked_complete ?s2\<rparr>)
        (Emit ''start''
         # Send c (Response (complete sw3) (incomplete sw3) (intervalMs ?s2) None) # rest3)"
    and p3: "peers_get (peers sw3) peerId =
      Own \<lparr>peer_socket = c, peer_peerId = peerId, peer_complete = False\<rparr>"
    by blast
  have r: "run rt self [(a, Some d1), (b, Some d2)] =
      Done ?s2 ((Emit ''start''
         # Send a (Response (complete sw1) (incomplete sw1) (intervalMs self1) None) # rest1) @ e2)"
    using o1 o2 by simp
  have cnt: "counted ?s2 infoHash = counted self infoHash"
    using c1 c2 getSwarm_counted [OF gs] by (simp add: counted_def)
  have iv: "intervalMs ?s2 = intervalMs self" using getSwarm_OwnD(3) [OF gs] by simp
  have t3: "torrents (?s2\<lparr>torrents := (torrents ?s2)(infoHash \<mapsto> sw3),
              marked_complete := marked_complete ?s2\<rparr>) infoHash = Some sw3" by simp
  from r cnt o3 [unfolded iv] t3 p3 show ?thesis by blast
qed

text \<open>
  C3 (amended) on a new server: \<open>peer1\<close> starts on socket 1, stops on socket 2 and
  starts again on socket 3.
\<close>

theorem started_stopped_started_witness:
  "valid_announce ascii_runtime (announce_message peer1 ''started'' 7 []) hash1 peer1 ''started'' \<and>
   valid_announce ascii_runtime (announce_message peer1 ''stopped'' 7 []) hash1 peer1 ''stopped'' \<and>
   internal_getSwarm (Server None) hash1 =
     (Own new_swarm, (Server None)\<lparr>torrents := (torrents (Server None))(hash1 \<mapsto> new_swarm)\<rparr>) \<and>
   \<not> truthy (peers_get (peers new_swarm) peer1) \<and>
   (\<exists>s2 e2 s3 x y rest swarm3.
      run ascii_runtime (Server None)
        [(1, Some (announce_message peer1 ''started'' 7 [])),
         (2, Some (announce_message peer1 ''stopped'' 7 []))] = Done s2 e2 \<and>
      counted s2 hash1 = counted (Server None) hash1 \<and>
      onSocketMessage ascii_runtime s2 3 (Some (announce_message peer1 ''started'' 7 [])) =
        Done s3 (Emit ''start'' # Send 3 (Response x y (intervalMs (Server None)) None) # rest) \<and>
      torrents s3 hash1 = Some swarm3 \<and>
      peers_get (peers swarm3) peer1 =
        Own \<lparr>peer_socket = 3, peer_peerId = peer1, peer_complete = False\<rparr>)"
proof -
  have h1: "valid_announce ascii_runtime (announce_message peer1 ''started'' 7 []) hash1 peer1
      ''started''"
    by (simp add: example_defs handler_defs)
  have h2: "valid_announce ascii_runtime (announce_message peer1 ''stopped'' 7 []) hash1 peer1
      ''stopped''"
    by (simp add: example_defs handler_defs)
  have h3: "internal_getSwarm (Server None) hash1 =
      (Own new_swarm, (Server None)\<lparr>torrents := (torrents (Server None))(hash1 \<mapsto> new_swarm)\<rparr>)"
    by (simp add: example_defs handler_defs)
  have h4: "\<not> truthy (peers_get (peers new_swarm) peer1)"
    by (simp add: example_defs handler_defs)
  from started_stopped_started [OF h1 h2 h1 h3 h4, of 1 2 3] h1 h2 h3 h4
  show ?thesis by (intro conjI) assumption+
qed

text \<open>
  C3 as stated fails when the peer is in the swarm before the pair: the \<open>started\<close> is then
  skipped as a duplicate and the \<open>stopped\<close> removes the peer. With \<open>peer1\<close> started, the
  sum is 1 before the pair and 0 after it.
\<close>

theorem started_stopped_of_present_peer_counterexample:
  "counted (state_of (run ascii_runtime (Server None)
      [(1, Some (announce_message peer1 ''started'' 7 []))])) hash1 = 1 \<and>
   counted (state_of (run ascii_runtime
      (state_of (run ascii_runtime (Server None)
         [(1, Some (announce_message peer1 ''started'' 7 []))]))
      [(1, Some (announce_message peer1 ''started'' 7 [])),
       (1, Some (announce_message peer1 ''stopped'' 7 []))])) hash1 = 0"
  by (simp add: handler_defs example_defs)


section \<open>Introductions\<close>

text \<open>
  C4. For every announce that reaches the peer introduction (the switch ends in \<open>break\<close>)
  with \<open>offers\<close> an array, or absent: after the response to the sender the handler sends
  exactly \<open>min(number of offers, 20)\<close> pushes, or fewer when the swarm has fewer peers that
  are not \<open>null\<close> (none when there is no offer); the push number \<open>i\<close> goes to the socket
  of the peer number \<open>i\<close> in enumeration order and is \<open>{offer: offers[i], from_peer_id:
  peerId}\<close> with the announcing peer's id. The pushes are sends of their own, after the
  response.
\<close>

theorem introductions_follow_offers:
  assumes "ids_of rt data = Some (infoHash, peerId)"
    and "internal_getSwarm self infoHash = (Own swarm, self1)"
    and "switch_event rt self1 socket data peerId swarm (peers_get (peers swarm) peerId) =
         Break swarm' marks emitted warning"
    and "fld data ''offers'' = Some (JArr offers) \<or> fld data ''offers'' = None \<and> offers = []"
  shows "\<exists>pushes.
           onSocketMessage rt self socket (Some data) =
             Done (self1\<lparr>torrents := (torrents self1)(infoHash \<mapsto> swarm'), marked_complete := marks\<rparr>)
               (emitted
                @ [Send socket
                     (Response (complete swarm') (incomplete swarm') (intervalMs self1) warning)]
                @ pushes) \<and>
           length pushes = min (min (length offers) 20) (length (live_peers (peers swarm'))) \<and>
           (\<forall>i < length pushes.
              pushes ! i =
                Send (peer_socket (live_peers (peers swarm') ! i))
                  (Introduction (Some (offers ! i)) peerId))"
proof -
  let ?n = "min (length offers) 20"
  let ?ps = "take ?n (live_peers (peers swarm'))"
  let ?pushes = "introductions ?ps (fld data ''offers'') peerId"
  have nw: "numWant_of rt data = Some (Fin (real ?n))"
    using assms(4) by (auto simp: numWant_array numWant_absent)
  have out: "onSocketMessage rt self socket (Some data) =
      Done (self1\<lparr>torrents := (torrents self1)(infoHash \<mapsto> swarm'), marked_complete := marks\<rparr>)
        (emitted
         @ [Send socket (Response (complete swarm') (incomplete swarm') (intervalMs self1) warning)]
         @ ?pushes)"
    using assms(1) announce_Break [OF assms(2) nw assms(3)]
    by (simp add: onSocketMessage_ids internal_getPeers_take)
  have len: "length ?pushes = min ?n (length (live_peers (peers swarm')))"
    by simp
  have nth: "?pushes ! i =
      Send (peer_socket (live_peers (peers swarm') ! i)) (Introduction (Some (offers ! i)) peerId)"
    if "i < length ?pushes" for i
  proof -
    from that have i: "i < length ?ps" "i < length offers" by simp_all
    then have "fld data ''offers'' = Some (JArr offers)" using assms(4) by auto
    with i show ?thesis by (simp add: introductions_nth)
  qed
  from out len nth show ?thesis by blast
qed

text \<open>
  C4 on the swarm of two peers: \<open>peer2\<close> sends an update with three offers on socket 3.
  Two pushes follow the response, the first offer to socket 1 and the second to socket 2.
\<close>

theorem introductions_follow_offers_witness:
  "ids_of ascii_runtime
     (announce_message peer2 '''' 5 [JStr (js ''o1''), JStr (js ''o2''), JStr (js ''o3'')]) =
     Some (hash1, peer2) \<and>
   internal_getSwarm two_peers hash1 = (Own two_peers_swarm, two_peers) \<and>
   switch_event ascii_runtime two_peers 3
     (announce_message peer2 '''' 5 [JStr (js ''o1''), JStr (js ''o2''), JStr (js ''o3'')])
     peer2 two_peers_swarm (peers_get (peers two_peers_swarm) peer2) =
     Break two_peers_swarm {} [Emit ''update''] None \<and>
   onSocketMessage ascii_runtime two_peers 3
     (Some (announce_message peer2 '''' 5 [JStr (js ''o1''), JStr (js ''o2''), JStr (js ''o3'')])) =
     Done two_peers
       [Emit ''update'', Send 3 (Response 0 2 600 None),
        Send 1 (Introduction (Some (JStr (js ''o1''))) peer2),
        Send 2 (Introduction (Some (JStr (js ''o2''))) peer2)]"
proof -
  let ?data = "announce_message peer2 '''' 5 [JStr (js ''o1''), JStr (js ''o2''), JStr (js ''o3'')]"
  have h1: "ids_of ascii_runtime ?data = Some (hash1, peer2)"
    by (simp add: example_defs handler_defs)
  have h2: "internal_getSwarm two_peers hash1 = (Own two_peers_swarm, two_peers)"
    by (simp add: example_defs handler_defs)
  have h3: "switch_event ascii_runtime two_peers 3 ?data peer2 two_peers_swarm
      (peers_get (peers two_peers_swarm) peer2) =
      Break two_peers_swarm {} [Emit ''update''] None"
    by (simp add: example_defs handler_defs)
  have h4: "fld ?data ''offers'' = Some (JArr [JStr (js ''o1''), JStr (js ''o2''), JStr (js ''o3'')])
      \<or> fld ?data ''offers'' = None \<and> [JStr (js ''o1''), JStr (js ''o2''), JStr (js ''o3'')] = []"
    by (simp add: example_defs handler_defs)
  from introductions_follow_offers [OF h1 h2 h3 h4] obtain pushes where
    out: "onSocketMessage ascii_runtime two_peers 3 (Some ?data) =
      Done (two_peers\<lparr>torrents := (torrents two_peers)(hash1 \<mapsto> two_peers_swarm),
              marked_complete := {}\<rparr>)
        ([Emit ''update''] @ [Send 3 (Response (complete two_peers_swarm)
            (incomplete two_peers_swarm) (intervalMs two_peers) None)] @ pushes)"
    and len: "length pushes = min (min (length [JStr (js ''o1''), JStr (js ''o2''), JStr (js ''o3'')]) 20)
        (length (live_peers (peers two_peers_swarm)))"
    and nth: "\<forall>i < length pushes. pushes ! i =
        Send (peer_socket (live_peers (peers two_peers_swarm) ! i))
          (Introduction (Some ([JStr (js ''o1''), JStr (js ''o2''), JStr (js ''o3'')] ! i)) peer2)"
    by blast
  from len have l2: "length pushes = 2" by (simp add: two_peers_swarm_def)
  then obtain p0 p1 where ps: "pushes = [p0, p1]"
    by (cases pushes; cases "tl pushes") auto
  from nth [rule_format, of 0] nth [rule_format, of 1] l2 have "pushes ! 0 = Send (peer_socket (live_peers (peers two_peers_swarm) ! 0))
      (Introduction (Some ([JStr (js ''o1''), JStr (js ''o2''), JStr (js ''o3'')] ! 0)) peer2)"
    "pushes ! 1 = Send (peer_socket (live_peers (peers two_peers_swarm) ! 1))
      (Introduction (Some ([JStr (js ''o1''), JStr (js ''o2''), JStr (js ''o3'')] ! 1)) peer2)"
    by simp_all
  with ps have "p0 = Send 1 (Introduction (Some (JStr (js ''o1''))) peer2)"
    "p1 = Send 2 (Introduction (Some (JStr (js ''o2''))) peer2)"
    by (simp_all add: two_peers_swarm_def)
  with ps out have "onSocketMessage ascii_runtime two_peers 3 (Some ?data) =
     Done two_peers
       [Emit ''update'', Send 3 (Response 0 2 600 None),
        Send 1 (Introduction (Some (JStr (js ''o1''))) peer2),
        Send 2 (Introduction (Some (JStr (js ''o2''))) peer2)]"
    by (simp add: two_peers_def two_peers_swarm_def)
  with h1 h2 h3 show ?thesis by (intro conjI)
qed


section \<open>Messages that fail validation\<close>

text \<open>
  C5 (amended). A message that cannot be parsed, a message other than \<open>null\<close> whose
  \<open>info_hash\<close> or \<open>peer_id\<close> is missing or not of 20 characters, and a message with valid
  ids and an event without a \<open>case\<close> label (whose \<open>offers\<close> \<open>Number\<close> converts and whose
  \<open>info_hash\<close> is not an inherited name) each have exactly two effects, the error response
  \<open>{'failure reason': reason}\<close> to the sender and a warning with the same text: no response,
  no introduction, nothing sent to another socket. In the first two cases the server is
  unchanged. In the third no existing swarm changes, but when the server has no swarm for
  the \<open>info_hash\<close> the lookup has created an empty one before the event is looked at.
\<close>

theorem validation_failure_outcome:
  "onSocketMessage rt self socket None =
     Done self [Send socket (FailureReason ''invalid socket message''),
                EmitWarning ''invalid socket message''] \<and>
   (data \<noteq> JNull \<and> ids_of rt data = None \<longrightarrow>
      (\<exists>reason. (reason = ''invalid info_hash'' \<or> reason = ''invalid peer_id'') \<and>
         onSocketMessage rt self socket (Some data) =
           Done self [Send socket (FailureReason reason), EmitWarning reason])) \<and>
   (ids_of rt data = Some (infoHash, peerId) \<and> \<not> recognized_event (fld data ''event'') \<and>
    numWant_of rt data \<noteq> None \<and> internal_getSwarm self infoHash = (Own swarm, self1) \<longrightarrow>
      onSocketMessage rt self socket (Some data) =
        Done self1 [Send socket (FailureReason ''invalid event''), EmitWarning ''invalid event''] \<and>
      (self1 = self \<or>
       torrents self infoHash = None \<and>
       self1 = self\<lparr>torrents := (torrents self)(infoHash \<mapsto> new_swarm)\<rparr>))"
proof (intro conjI impI)
  show "onSocketMessage rt self socket None =
     Done self [Send socket (FailureReason ''invalid socket message''),
                EmitWarning ''invalid socket message'']"
    by (simp add: onSocketMessage_def error_def)
next
  assume "data \<noteq> JNull \<and> ids_of rt data = None"
  then have "data \<noteq> JNull" "ids_of rt data = None" by simp_all
  from onSocketMessage_no_ids [OF this, of self socket]
  show "\<exists>reason. (reason = ''invalid info_hash'' \<or> reason = ''invalid peer_id'') \<and>
         onSocketMessage rt self socket (Some data) =
           Done self [Send socket (FailureReason reason), EmitWarning reason]"
    by (auto simp: error_def)
next
  assume a: "ids_of rt data = Some (infoHash, peerId) \<and> \<not> recognized_event (fld data ''event'') \<and>
    numWant_of rt data \<noteq> None \<and> internal_getSwarm self infoHash = (Own swarm, self1)"
  then obtain n where n: "numWant_of rt data = Some n" by auto
  from a have ids: "ids_of rt data = Some (infoHash, peerId)"
    and ev: "\<not> recognized_event (fld data ''event'')"
    and gs: "internal_getSwarm self infoHash = (Own swarm, self1)"
    by simp_all
  show "onSocketMessage rt self socket (Some data) =
        Done self1 [Send socket (FailureReason ''invalid event''), EmitWarning ''invalid event'']"
    using announce_Return [OF gs n switch_unrecognized [OF ev]]
    by (simp add: onSocketMessage_ids [OF ids] error_def)
  show "self1 = self \<or>
       torrents self infoHash = None \<and>
       self1 = self\<lparr>torrents := (torrents self)(infoHash \<mapsto> new_swarm)\<rparr>"
    using gs by (auto simp: internal_getSwarm_def split: option.splits if_splits)
qed

text \<open>
  The message \<open>null\<close> is outside the statement above: \<open>JSON.parse\<close> returns \<open>null\<close>, and
  reading \<open>data.info_hash\<close> throws before anything is sent.
\<close>

lemma null_payload_throws: "onSocketMessage rt self socket (Some JNull) = Threw self"
  by (simp add: onSocketMessage_def)

text \<open>
  C5 (amended) on a new server and on the swarm of two peers: a message that is the
  number 5 has no ids, and an announce with the event \<open>paused\<close> has valid ids and no
  \<open>case\<close> label.
\<close>

theorem validation_failure_outcome_witness:
  "onSocketMessage ascii_runtime (Server None) 1 None =
     Done (Server None) [Send 1 (FailureReason ''invalid socket message''),
                         EmitWarning ''invalid socket message''] \<and>
   JNum (Fin 5) \<noteq> JNull \<and> ids_of ascii_runtime (JNum (Fin 5)) = None \<and>
   onSocketMessage ascii_runtime (Server None) 1 (Some (JNum (Fin 5))) =
     Done (Server None) [Send 1 (FailureReason ''invalid info_hash''),
                         EmitWarning ''invalid info_hash''] \<and>
   ids_of ascii_runtime (announce_message peer1 ''paused'' 0 []) = Some (hash1, peer1) \<and>
   \<not> recognized_event (fld (announce_message peer1 ''paused'' 0 []) ''event'') \<and>
   numWant_of ascii_runtime (announce_message peer1 ''paused'' 0 []) \<noteq> None \<and>
   internal_getSwarm two_peers hash1 = (Own two_peers_swarm, two_peers) \<and>
   onSocketMessage ascii_runtime two_peers 1 (Some (announce_message peer1 ''paused'' 0 [])) =
     Done two_peers [Send 1 (FailureReason ''invalid event''), EmitWarning ''invalid event'']"
proof -
  let ?bad = "announce_message peer1 ''paused'' 0 []"
  have h1: "JNum (Fin 5) \<noteq> JNull \<and> ids_of ascii_runtime (JNum (Fin 5)) = None"
    by (simp add: ids_of_def)
  have h2: "ids_of ascii_runtime ?bad = Some (hash1, peer1) \<and>
      \<not> recognized_event (fld ?bad ''event'') \<and> numWant_of ascii_runtime ?bad \<noteq> None \<and>
      internal_getSwarm two_peers hash1 = (Own two_peers_swarm, two_peers)"
    by (simp add: example_defs handler_defs)
  from validation_failure_outcome
    [of ascii_runtime "Server None" 1 "JNum (Fin 5)" hash1 peer1 two_peers_swarm two_peers] h1
  have a: "onSocketMessage ascii_runtime (Server None) 1 None =
      Done (Server None) [Send 1 (FailureReason ''invalid socket message''),
                          EmitWarning ''invalid socket message'']"
    and b0: "\<exists>reason. (reason = ''invalid info_hash'' \<or> reason = ''invalid peer_id'') \<and>
      onSocketMessage ascii_runtime (Server None) 1 (Some (JNum (Fin 5))) =
        Done (Server None) [Send 1 (FailureReason reason), EmitWarning reason]"
    by blast+
  have "onSocketMessage ascii_runtime (Server None) 1 (Some (JNum (Fin 5))) \<noteq>
      Done (Server None) [Send 1 (FailureReason ''invalid peer_id''),
                          EmitWarning ''invalid peer_id'']"
    by (simp add: onSocketMessage_def error_def)
  with b0 have b: "onSocketMessage ascii_runtime (Server None) 1 (Some (JNum (Fin 5))) =
      Done (Server None) [Send 1 (FailureReason ''invalid info_hash''),
                          EmitWarning ''invalid info_hash'']"
    by auto
  from validation_failure_outcome
    [of ascii_runtime two_peers 1 ?bad hash1 peer1 two_peers_swarm two_peers] h2
  have c: "onSocketMessage ascii_runtime two_peers 1 (Some ?bad) =
      Done two_peers [Send 1 (FailureReason ''invalid event''), EmitWarning ''invalid event'']"
    by blast
  from a b c h1 h2 show ?thesis by (intro conjI) simp_all
qed

text \<open>
  C5 as stated fails in its clause that no swarm state is mutated: on a new server an
  announce with valid ids and the event \<open>paused\<close> is answered with the error response,
  and the server then holds an empty swarm under the \<open>info_hash\<close> where it had none.
\<close>

theorem invalid_event_creates_swarm_counterexample:
  "onSocketMessage ascii_runtime (Server None) 1 (Some (announce_message peer1 ''paused'' 0 [])) =
     Done ((Server None)\<lparr>torrents := [hash1 \<mapsto> new_swarm]\<rparr>)
       [Send 1 (FailureReason ''invalid event''), EmitWarning ''invalid event''] \<and>
   torrents (Server None) hash1 = None \<and>
   torrents ((Server None)\<lparr>torrents := [hash1 \<mapsto> new_swarm]\<rparr>) hash1 = Some new_swarm"
  by (simp add: handler_defs example_defs)

section \<open>Repeated announces\<close>

text \<open>
  C7. For a peer whose entry in the swarm is marked complete, a valid \<open>completed\<close> announce
  leaves the server as it is (counters and peer entry included), and its response carries
  the warning that the peer is already marked as completed, in place of the transition.
  (The introductions for the offers of the message follow, as after every response.)
\<close>

theorem second_completed_is_noop:
  assumes "valid_announce rt data infoHash peerId ''completed''"
    and "torrents self infoHash = Some swarm"
    and "peers_get (peers swarm) peerId = Own p"
    and "peer_complete p"
  shows "\<exists>pushes.
           onSocketMessage rt self socket (Some data) =
             Done self
               (Send socket
                  (Response (complete swarm) (incomplete swarm) (intervalMs self)
                     (Some ''unexpected `completed` event from peer that is already marked as completed''))
                # pushes)"
proof -
  from assms(1) obtain n where ids: "ids_of rt data = Some (infoHash, peerId)"
    and ev: "fld data ''event'' = Some (JStr (js ''completed''))"
    and n: "numWant_of rt data = Some n"
    by (auto simp: valid_announce_def)
  have sw: "switch_event rt self socket data peerId swarm (peers_get (peers swarm) peerId) =
      Break swarm (marked_complete self) []
        (Some ''unexpected `completed` event from peer that is already marked as completed'')"
    using assms ev by (simp add: switch_completed_again)
  show ?thesis
    using assms(2)
    by (simp add: onSocketMessage_ids [OF ids]
        announce_Break [OF getSwarm_existing [OF assms(2)] n sw] server_write_back)
qed

text \<open>C7 on the server whose only peer has completed: \<open>peer1\<close> reports completion again.\<close>

theorem second_completed_is_noop_witness:
  "valid_announce ascii_runtime (announce_message peer1 ''completed'' 0 []) hash1 peer1
     ''completed'' \<and>
   torrents seeded hash1 = Some seeded_swarm \<and>
   peers_get (peers seeded_swarm) peer1 =
     Own \<lparr>peer_socket = 1, peer_peerId = peer1, peer_complete = True\<rparr> \<and>
   (\<exists>pushes.
      onSocketMessage ascii_runtime seeded 1 (Some (announce_message peer1 ''completed'' 0 [])) =
        Done seeded
          (Send 1
             (Response 1 0 600
                (Some ''unexpected `completed` event from peer that is already marked as completed''))
           # pushes))"
proof -
  have h1: "valid_announce ascii_runtime (announce_message peer1 ''completed'' 0 []) hash1 peer1
      ''completed''"
    by (simp add: example_defs handler_defs)
  have h2: "torrents seeded hash1 = Some seeded_swarm"
    by (simp add: example_defs)
  have h3: "peers_get (peers seeded_swarm) peer1 =
      Own \<lparr>peer_socket = 1, peer_peerId = peer1, peer_complete = True\<rparr>"
    by (simp add: example_defs handler_defs)
  have h4: "peer_complete \<lparr>peer_socket = 1, peer_peerId = peer1, peer_complete = True\<rparr>"
    by simp
  from second_completed_is_noop [OF h1 h2 h3 h4, of 1]
  have "\<exists>pushes.
      onSocketMessage ascii_runtime seeded 1 (Some (announce_message peer1 ''completed'' 0 [])) =
        Done seeded
          (Send 1
             (Response 1 0 600
                (Some ''unexpected `completed` event from peer that is already marked as completed''))
           # pushes)"
    by (simp add: seeded_swarm_def seeded_def)
  with h1 h2 h3 show ?thesis by (intro conjI)
qed

text \<open>
  C10. When a \<open>started\<close> announce arrives for a peer id that has a peer entry in the
  swarm, the server is left as it is: the entry, with the socket it stores, is the one
  read before, whatever socket the duplicate announce came in on.
\<close>

theorem duplicate_started_leaves_peer:
  assumes "ids_of rt data = Some (infoHash, peerId)"
    and "fld data ''event'' = Some (JStr (js ''started''))"
    and "torrents self infoHash = Some swarm"
    and "peers_get (peers swarm) peerId = Own p"
  shows "state_of (onSocketMessage rt self socket (Some data)) = self \<and>
         map_option (\<lambda>swarm'. peers_get (peers swarm') peerId)
           (torrents (state_of (onSocketMessage rt self socket (Some data))) infoHash) =
           Some (Own p)"
proof -
  have "state_of (onSocketMessage rt self socket (Some data)) = self"
    using assms
    by (simp add: onSocketMessage_ids announce_def getSwarm_existing
        switch_started_duplicate server_write_back split: option.split)
  with assms(3,4) show ?thesis by simp
qed

text \<open>
  C10 on the swarm of two peers: \<open>peer1\<close>, stored with socket 1, sends \<open>started\<close> again on
  socket 9.
\<close>

theorem duplicate_started_leaves_peer_witness:
  "ids_of ascii_runtime (announce_message peer1 ''started'' 5 []) = Some (hash1, peer1) \<and>
   fld (announce_message peer1 ''started'' 5 []) ''event'' = Some (JStr (js ''started'')) \<and>
   torrents two_peers hash1 = Some two_peers_swarm \<and>
   peers_get (peers two_peers_swarm) peer1 =
     Own \<lparr>peer_socket = 1, peer_peerId = peer1, peer_complete = False\<rparr> \<and>
   state_of (onSocketMessage ascii_runtime two_peers 9
     (Some (announce_message peer1 ''started'' 5 []))) = two_peers"
proof -
  have h1: "ids_of ascii_runtime (announce_message peer1 ''started'' 5 []) = Some (hash1, peer1)"
    by (simp add: example_defs handler_defs)
  have h2: "fld (announce_message peer1 ''started'' 5 []) ''event'' = Some (JStr (js ''started''))"
    by (simp add: example_defs handler_defs)
  have h3: "torrents two_peers hash1 = Some two_peers_swarm"
    by (simp add: example_defs)
  have h4: "peers_get (peers two_peers_swarm) peer1 =
      Own \<lparr>peer_socket = 1, peer_peerId = peer1, peer_complete = False\<rparr>"
    by (simp add: example_defs handler_defs)
  from duplicate_started_leaves_peer [OF h1 h2 h3 h4, of 9] h1 h2 h3 h4
  show ?thesis by (intro conjI) simp_all
qed


text \<open>The two example servers are states the tracker reaches from a new server.\<close>

lemma two_peers_reached:
  "run ascii_runtime (Server None)
     [(1, Some (announce_message peer1 ''started'' 5 [])),
      (2, Some (announce_message peer2 ''started'' 5 []))] =
   Done two_peers
     [Emit ''start'', Send 1 (Response 0 1 600 None),
      Emit ''start'', Send 2 (Response 0 2 600 None)]"
  by (simp add: handler_defs example_defs fun_upd_twist)

lemma seeded_reached:
  "run ascii_runtime (Server None)
     [(1, Some (announce_message peer1 ''started'' 5 [])),
      (1, Some (announce_message peer1 ''completed'' 0 []))] =
   Done seeded
     [Emit ''start'', Send 1 (Response 0 1 600 None),
      Emit ''complete'', Send 1 (Response 1 0 600 None)]"
  by (simp add: handler_defs example_defs)

text \<open>
  The scenario of the specification: \<open>peer1\<close> starts as a seed with no offers, \<open>peer2\<close>
  starts with one offer, which is pushed to \<open>peer1\<close>'s socket, and \<open>peer1\<close> answers
  \<open>peer2\<close>, whose socket receives the raw answer.
\<close>

lemma rendezvous_scenario:
  "run ascii_runtime (Server None)
     [(1, Some (announce_message peer1 ''started'' 0 [])),
      (2, Some (announce_message peer2 ''started'' 100 [JStr (js ''o1'')])),
      (1, Some (message
         [(''info_hash'', JStr hash1), (''peer_id'', JStr peer1),
          (''event'', JStr (js ''answered'')), (''to_peer_id'', JStr peer2),
          (''answer'', JStr (js ''a1''))]))] =
   Done
     \<lparr>intervalMs = 600,
      torrents = [hash1 \<mapsto>
        \<lparr>complete = 1, incomplete = 1,
         peers = [(peer1, Some \<lparr>peer_socket = 1, peer_peerId = peer1, peer_complete = False\<rparr>),
                  (peer2, Some \<lparr>peer_socket = 2, peer_peerId = peer2, peer_complete = False\<rparr>)]\<rparr>],
      marked_complete = {}\<rparr>
     [Emit ''start'', Send 1 (Response 1 0 600 None),
      Emit ''start'', Send 2 (Response 1 1 600 None),
      Send 1 (Introduction (Some (JStr (js ''o1''))) peer2),
      Send 2 (Raw (JStr (js ''a1''))), Emit ''answer'']"
  by (simp add: handler_defs example_defs fun_upd_twist)

section \<open>Relaying an answer\<close>

text \<open>
  What the \<open>answered\<close> branch does for a sender that is in the swarm, by the value read
  under \<open>to_peer_id\<close>: the answer goes to a peer's socket as it is, with no response to the
  sender; a name that finds nothing gives a warning and no message.
\<close>

lemma answered_relays_verbatim:
  assumes "valid_announce rt data infoHash peerId ''answered''"
    and "torrents self infoHash = Some swarm"
    and "truthy (peers_get (peers swarm) peerId)"
    and "fld data ''to_peer_id'' = Some (JStr toPeerId)" "toPeerId \<noteq> []"
    and "peers_get (peers swarm) toPeerId = Own toPeer"
    and "fld data ''answer'' = Some (JStr answer)"
  shows "onSocketMessage rt self socket (Some data) =
         Done self [Send (peer_socket toPeer) (Raw (JStr answer)), Emit ''answer'']"
proof -
  from assms(1) obtain n where ids: "ids_of rt data = Some (infoHash, peerId)"
    and ev: "fld data ''event'' = Some (JStr (js ''answered''))"
    and n: "numWant_of rt data = Some n"
    by (auto simp: valid_announce_def)
  have "switch_event rt self socket data peerId swarm (peers_get (peers swarm) peerId) =
      Return (Done self [Send (peer_socket toPeer) (Raw (JStr answer)), Emit ''answer''])"
    using assms(3-) ev by (simp add: switch_event_def event_names_distinct)
  from announce_Return [OF getSwarm_existing [OF assms(2)] n this] show ?thesis
    by (simp add: onSocketMessage_ids [OF ids])
qed

lemma answered_unknown_target:
  assumes "valid_announce rt data infoHash peerId ''answered''"
    and "torrents self infoHash = Some swarm"
    and "truthy (peers_get (peers swarm) peerId)"
    and "fld data ''to_peer_id'' = Some (JStr toPeerId)" "toPeerId \<noteq> []"
    and "\<not> truthy (peers_get (peers swarm) toPeerId)"
  shows "onSocketMessage rt self socket (Some data) =
         Done self [EmitWarning ''no peer with that `to_peer_id`'']"
proof -
  from assms(1) obtain n where ids: "ids_of rt data = Some (infoHash, peerId)"
    and ev: "fld data ''event'' = Some (JStr (js ''answered''))"
    and n: "numWant_of rt data = Some n"
    by (auto simp: valid_announce_def)
  have "switch_event rt self socket data peerId swarm (peers_get (peers swarm) peerId) =
      Return (Done self [EmitWarning ''no peer with that `to_peer_id`''])"
    using assms(3-) ev
    by (cases "peers_get (peers swarm) toPeerId")
      (simp_all add: switch_event_def event_names_distinct)
  from announce_Return [OF getSwarm_existing [OF assms(2)] n this] show ?thesis
    by (simp add: onSocketMessage_ids [OF ids])
qed

text \<open>
  C6. The specification: for a valid \<open>answered\<close> announce from a peer in the swarm whose target
  is unknown, a warning is emitted and no message is sent. The code: \<open>constructor\<close> names
  no peer, but \<open>swarm.peers['constructor']\<close> is an inherited function, which is truthy and
  has no \<open>socket\<close>, so \<open>toPeer.socket.send(answer)\<close> throws a \<open>TypeError\<close>: the handler
  ends with the exception, without the warning. In the swarm of two peers:
\<close>

theorem answered_to_inherited_name_throws:
  "onSocketMessage ascii_runtime two_peers 1
     (Some (message
        [(''info_hash'', JStr hash1), (''peer_id'', JStr peer1),
         (''event'', JStr (js ''answered'')), (''to_peer_id'', JStr (js ''constructor'')),
         (''answer'', JStr (js ''sdp''))])) =
   Threw two_peers"
  by (simp add: handler_defs example_defs)

section \<open>The two encodings of an infohash\<close>

lemma hex_digit_value_hex_digit:
  assumes "n < 16"
  shows "hex_digit_value (hex_digit n) = Some n"
proof -
  have "unat (of_nat m :: 16 word) = m" if "m < 65536" for m
    using that by (simp only: unat_of_nat) simp
  from this [of "48 + n"] this [of "87 + n"]
  have "unat (48 + of_nat n :: 16 word) = 48 + n" "unat (87 + of_nat n :: 16 word) = 87 + n"
    using assms by simp_all
  with assms show ?thesis
    by (auto simp: hex_digit_value_def hex_digit_def Let_def)
qed

lemma byte_of_nibbles: "of_nat (16 * (unat b div 16) + unat b mod 16) = (b :: byte)"
  by simp

lemma hex_decode_encode: "hex_decode (hex_encode bs) = Some bs"
proof (induction bs)
  case Nil
  then show ?case by (simp add: hex_encode_def)
next
  case (Cons b bs)
  have "unat b div 16 < 16"
    using unsigned_less [of b, where 'a = nat] by (simp add: less_mult_imp_div_less)
  moreover have "unat b mod 16 < 16" by simp
  ultimately show ?case
    using Cons
    by (simp add: hex_encode_def hex_digit_value_hex_digit byte_of_nibbles
        del: of_nat_add of_nat_mult)
qed

text \<open>
  The two forms are normalised to one key. For every hash \<open>b\<close>, \<open>getSwarm\<close> called with
  the buffer and \<open>getSwarm\<close> called with the hex string of the same hash return the same
  object and leave the same server, and called again on that server, in either form, they
  return that object once more and change nothing. The object is a swarm stored in
  \<open>torrents\<close>, except when the binary form of the hash is the name of an inherited
  property.
\<close>

lemma encodings_name_one_entry:
  "\<exists>r self1.
     getSwarm self (IsBuffer b) = Some (r, self1) \<and>
     getSwarm self (HexString (hex_encode b)) = Some (r, self1) \<and>
     getSwarm self1 (IsBuffer b) = Some (r, self1) \<and>
     getSwarm self1 (HexString (hex_encode b)) = Some (r, self1) \<and>
     ((\<exists>swarm. r = Own swarm \<and> torrents self1 (binary_string b) = Some swarm) \<or>
      binary_string b \<in> set object_prototype_names)"
proof -
  obtain r self1 where g: "internal_getSwarm self (binary_string b) = (r, self1)"
    by (cases "internal_getSwarm self (binary_string b)")
  have "(\<exists>swarm. r = Own swarm \<and> torrents self1 (binary_string b) = Some swarm) \<or>
      binary_string b \<in> set object_prototype_names"
    using g by (auto simp: internal_getSwarm_def split: option.splits if_splits)
  with g getSwarm_again [OF g] show ?thesis by (simp add: hex_decode_encode)
qed

text \<open>
  C8. The specification: for every 20-byte infohash, the lookup with the binary form and
  the lookup with the hex string of the same hash resolve to the same Swarm object. The
  code: the 20 bytes that spell \<open>propertyIsEnumerable\<close> are a hash whose binary form is
  the name of a property every object inherits, so \<open>self.torrents[binaryInfoHash]\<close> is
  that function, which is truthy: \<open>_getSwarm\<close> returns it and creates nothing. On a new
  server both forms of this hash resolve to the inherited function, not to a swarm, and
  \<open>torrents\<close> holds no swarm for the hash afterwards.
\<close>

theorem inherited_name_hash_is_no_swarm:
  "getSwarm (Server None) (IsBuffer (map of_char ''propertyIsEnumerable'')) =
     Some (Inherited (js ''propertyIsEnumerable''), Server None) \<and>
   getSwarm (Server None) (HexString (js ''70726f70657274794973456e756d657261626c65'')) =
     Some (Inherited (js ''propertyIsEnumerable''), Server None) \<and>
   hex_encode (map of_char ''propertyIsEnumerable'') =
     js ''70726f70657274794973456e756d657261626c65'' \<and>
   length (map of_char ''propertyIsEnumerable'' :: byte list) = 20 \<and>
   torrents (Server None) (js ''propertyIsEnumerable'') = None"
  by (simp add: internal_getSwarm_def binary_string_def hex_digit_value_def hex_encode_def
      hex_digit_def object_prototype_names_def js_def Server_def)

section \<open>One connection attempt of the client\<close>

lemmas client_defs =
  deliver_def on_open_def on_message_def on_error_def close_def on_close_def emit_def Let_def
  warnings_def closes_def same_attempt_def












text \<open>
  Between attempts: the \<open>close\<close> of the current connection clears its handlers, and a
  connection whose handlers are cleared has no effect on the client any more.
\<close>

lemma close_detaches:
  assumes "ws s = Some i" "i < length (sockets s)" "onclose (sockets s ! i)"
  shows "ws (deliver i Close s) = None"
    and "\<not> onopen (sockets (deliver i Close s) ! i)"
    and "\<not> onmessage (sockets (deliver i Close s) ! i)"
    and "\<not> onclose (sockets (deliver i Close s) ! i)"
    and "\<not> onerror (sockets (deliver i Close s) ! i)"
  using assms by (simp_all add: client_defs)

lemma detached_socket_silent:
  assumes "\<not> onopen (sockets s ! j)" "\<not> onmessage (sockets s ! j)"
    "\<not> onclose (sockets s ! j)" "\<not> onerror (sockets s ! j)"
  shows "deliver j ev s = s"
  using assms by (cases ev) (simp_all add: deliver_def)

text \<open>
  The handlers do not look at which \<open>WebSocket\<close> an event comes from. The theorem above
  covers the events delivered within the attempt, which is where a \<open>WebSocket\<close> delivers
  its \<open>close\<close> (right after the \<open>error\<close>). A \<open>close\<close> of the failed connection that came
  only after the timeout had run \<open>_init\<close> would be handled as a close of the new
  connection.
\<close>

lemma close_after_next_init:
  "notified (deliver 0 Close (timeout 0 (deliver 0 (Error ''e1'') (Socket None)))) =
     [Warned ''e1'', Closed]"
  by (simp add: Socket_def init_def timeout_def RECONNECT_TIMEOUT_def client_defs)


end
